theory Spec2Isabelle
  imports Complex_Main "HOL-Library.Log_Nat"
begin

section \<open>Python values used by generate\_sprites.py\<close>

subsection \<open>Exceptions\<close>

text \<open>
  The script raises nothing itself; what can end a call early are exceptions of the
  libraries it uses. \<open>OSError\<close> (of which \<open>IOError\<close> is an alias in Python 3) is the one
  the script catches; \<open>ValueError\<close> is what \<open>range\<close> raises on a zero step;
  \<open>OtherError\<close> stands for every other exception class.
\<close>

datatype exn = OSError | ValueError | OtherError

subsection \<open>Floats\<close>

text \<open>
  A Python float is an IEEE 754 binary64 number. A finite float is modelled by the rational
  it denotes; every arithmetic operation computes the exact rational result and rounds it
  to the nearest binary64 value, ties to even (\<open>round_binary64\<close>). Overflow to infinity is
  not modelled: no value in this program comes near \<open>2 ^ 1024\<close>.
\<close>

type_synonym pyfloat = rat

definition floor_log2 :: "rat \<Rightarrow> int" where
  "floor_log2 x =
     (case quotient_of x of (a, b) \<Rightarrow>
        (let e0 = bitlen a - bitlen b in if 2 powi e0 \<le> x then e0 else e0 - 1))"

definition round_half_even :: "rat \<Rightarrow> int" where
  "round_half_even y =
     (let f = \<lfloor>y\<rfloor>; d = y - of_int f
      in if d < 1 / 2 then f else if 1 / 2 < d then f + 1 else if even f then f else f + 1)"

definition round_binary64 :: "rat \<Rightarrow> pyfloat" where
  "round_binary64 x =
     (if x = 0 then 0
      else (let e = max (floor_log2 \<bar>x\<bar>) (- 1022); ulp = 2 powi (e - 52)
            in sgn x * of_int (round_half_even (\<bar>x\<bar> / ulp)) * ulp))"

text \<open>\<open>a / b\<close> on two Python ints: the correctly rounded quotient.\<close>

definition int_truediv :: "int \<Rightarrow> int \<Rightarrow> pyfloat" where
  "int_truediv a b = round_binary64 (of_int a / of_int b)"

text \<open>An int operand of a mixed operation is converted to float first.\<close>

definition float_of_int :: "int \<Rightarrow> pyfloat" where
  "float_of_int i = round_binary64 (of_int i)"

text \<open>A decimal literal such as \<open>2.1\<close> denotes the nearest float.\<close>

definition float_lit :: "rat \<Rightarrow> pyfloat" where
  "float_lit q = round_binary64 q"

definition fadd :: "pyfloat \<Rightarrow> pyfloat \<Rightarrow> pyfloat" where
  "fadd x y = round_binary64 (x + y)"

definition fmul :: "pyfloat \<Rightarrow> pyfloat \<Rightarrow> pyfloat" where
  "fmul x y = round_binary64 (x * y)"

definition fdiv :: "pyfloat \<Rightarrow> pyfloat \<Rightarrow> pyfloat" where
  "fdiv x y = round_binary64 (x / y)"

text \<open>\<open>int(x)\<close> on a float truncates towards zero.\<close>

definition py_int :: "pyfloat \<Rightarrow> int" where
  "py_int x = (if 0 \<le> x then \<lfloor>x\<rfloor> else \<lceil>x\<rceil>)"

text \<open>\<open>math.pi\<close> is the float nearest to \<open>\<pi>\<close>, \<open>0x1.921fb54442d18p+1\<close>.\<close>

definition math_pi :: pyfloat where
  "math_pi = 7074237752028440 / 2 ^ 51"

text \<open>\<open>math.radians(x)\<close> is \<open>x * (pi / 180.0)\<close> in CPython.\<close>

definition math_radians :: "pyfloat \<Rightarrow> pyfloat" where
  "math_radians x = fmul x (fdiv math_pi (float_of_int 180))"

subsection \<open>Ranges\<close>

text \<open>\<open>range(start, stop, step)\<close> for a non-zero step; the callers check the step first.\<close>

definition py_range3 :: "int \<Rightarrow> int \<Rightarrow> int \<Rightarrow> int list" where
  "py_range3 start stop step =
     (if 0 < step then
        map (\<lambda>k. start + int k * step) [0 ..< nat ((stop - start + step - 1) div step)]
      else if step < 0 then
        map (\<lambda>k. start + int k * step) [0 ..< nat ((start - stop - step - 1) div (- step))]
      else [])"

definition py_range :: "int \<Rightarrow> int list" where
  "py_range n = py_range3 0 n 1"

subsection \<open>Paths\<close>

text \<open>\<open>os.path.join\<close> and \<open>os.path.dirname\<close> of \<open>posixpath\<close>.\<close>

definition path_join :: "string \<Rightarrow> string \<Rightarrow> string" where
  "path_join a b =
     (if b \<noteq> [] \<and> hd b = CHR ''/'' then b
      else if a = [] \<or> last a = CHR ''/'' then a @ b
      else a @ ''/'' @ b)"

definition dirname :: "string \<Rightarrow> string" where
  "dirname p =
     (let head = rev (dropWhile (\<lambda>c. c \<noteq> CHR ''/'') (rev p))
      in if head \<noteq> [] \<and> (\<exists>c \<in> set head. c \<noteq> CHR ''/'')
         then rev (dropWhile (\<lambda>c. c = CHR ''/'') (rev head))
         else head)"

section \<open>The imaging library, as far as the script uses it\<close>

text \<open>
  Pillow is a black box. A colour is the tuple the script passes; a draw call is recorded
  with the arguments it receives, the keyword arguments the script omits at their Pillow
  defaults (\<open>fill=None\<close>, \<open>outline=None\<close>, \<open>width=1\<close>, for \<open>line\<close> \<open>width=0\<close>).
\<close>

datatype color = RGB int int int | RGBA int int int int

type_synonym bbox = "int \<times> int \<times> int \<times> int"

datatype font = FreeTypeFont string int | DefaultFont

datatype cmd =
    Ellipse bbox "color option" "color option" int
  | Rounded_rectangle bbox int "color option" "color option" int
  | Rectangle bbox "color option" "color option" int
  | Polygon "(int \<times> int) list" "color option" "color option" int
  | Line "(int \<times> int) list" "color option" int
  | Arc bbox int int "color option" int
  | Text "int \<times> int" string font "color option" string

datatype resample = LANCZOS

text \<open>
  An image is the history of library calls that made it: \<open>Image.new\<close>, the draw calls
  made on it through \<open>ImageDraw.Draw\<close>, in order, and \<open>Image.resize\<close>.
\<close>

datatype image =
    New string "int \<times> int" color
  | Drawn image "cmd list"
  | Resized image "int \<times> int" resample

fun image_size :: "image \<Rightarrow> int \<times> int" where
  "image_size (New m sz c) = sz"
| "image_size (Drawn im cs) = image_size im"
| "image_size (Resized im sz f) = sz"

definition width :: "image \<Rightarrow> int" where
  "width im = fst (image_size im)"

definition height :: "image \<Rightarrow> int" where
  "height im = snd (image_size im)"




section \<open>The environment of a run\<close>

text \<open>
  What the script takes from outside: the directory of the script file, the \<open>random\<close>
  module (\<open>seed\<close> sets the global generator state from its argument alone; \<open>randint\<close>
  and \<open>choice\<close> read and advance it), the \<open>sin\<close> and \<open>cos\<close> of the C library, and the
  fonts that \<open>ImageFont.truetype\<close> can open. The type \<open>'r\<close> is the state of the random
  generator.

  \<open>randint(a, b)\<close> raises \<open>ValueError\<close> when \<open>a > b\<close>; the bounds the script passes at
  its canvas sizes are in order, and the model's \<open>randint\<close> is total. What Pillow does
  with the arguments of a draw call, an exception included, is not modelled.
\<close>

record 'r env =
  script_dir :: string
  random_seed :: "int \<Rightarrow> 'r"
  random_randint :: "int \<Rightarrow> int \<Rightarrow> 'r \<Rightarrow> int \<times> 'r"
  random_choice :: "color list \<Rightarrow> 'r \<Rightarrow> color \<times> 'r"
  math_sin :: "pyfloat \<Rightarrow> pyfloat"
  math_cos :: "pyfloat \<Rightarrow> pyfloat"
  truetype :: "string \<Rightarrow> int \<Rightarrow> exn + font"

datatype json = JString string | JInt int | JArray "json list" | JObject "(string \<times> json) list"

datatype file_content = Png image | Json json

text \<open>The state a generator changes: the global random generator and the file system.\<close>

record 'r world =
  rng :: 'r
  dirs :: "string set"
  files :: "string \<rightharpoonup> file_content"

section \<open>Export\<close>

definition ASSETS_DIR :: "'r env \<Rightarrow> string" where
  "ASSETS_DIR E = path_join (path_join (script_dir E) ''CowsInTheDitch'') ''Assets.xcassets''"

definition SUPERSAMPLE :: int where
  "SUPERSAMPLE = 4"

text \<open>\<open>os.makedirs(d, exist_ok=True)\<close>: \<open>d\<close> and the directories above it exist afterwards.\<close>

definition parent_dirs :: "string \<Rightarrow> string list" where
  "parent_dirs d = [take i d. i \<leftarrow> [1 ..< length d], d ! i = CHR ''/'']"

definition makedirs :: "string \<Rightarrow> 'r world \<Rightarrow> 'r world" where
  "makedirs d W = W\<lparr>dirs := dirs W \<union> set (parent_dirs d) \<union> {d}\<rparr>"

text \<open>
  Opening a file for writing replaces its content; it fails with \<open>FileNotFoundError\<close>,
  an \<open>OSError\<close>, when the directory of the path does not exist.
\<close>

definition write_file :: "string \<Rightarrow> file_content \<Rightarrow> 'r world \<Rightarrow> exn + 'r world" where
  "write_file path content W =
     (if dirname path = [] \<or> dirname path \<in> dirs W
      then Inr (W\<lparr>files := (files W)(path \<mapsto> content)\<rparr>)
      else Inl OSError)"

definition contents_json :: "string \<Rightarrow> json" where
  "contents_json name =
     JObject [
       (''images'', JArray [
          JObject [(''filename'', JString (name @ ''@2x.png'')),
                   (''idiom'', JString ''universal''), (''scale'', JString ''2x'')],
          JObject [(''filename'', JString (name @ ''@3x.png'')),
                   (''idiom'', JString ''universal''), (''scale'', JString ''3x'')]]),
       (''info'', JObject [(''author'', JString ''xcode''), (''version'', JInt 1)])]"

definition ensure_imageset :: "'r env \<Rightarrow> string \<Rightarrow> 'r world \<Rightarrow> exn + (string \<times> 'r world)" where
  "ensure_imageset E name W =
     (let d = path_join (ASSETS_DIR E) (name @ ''.imageset'');
          W1 = makedirs d W
      in case write_file (path_join d ''Contents.json'') (Json (contents_json name)) W1 of
           Inl e \<Rightarrow> Inl e
         | Inr W2 \<Rightarrow> Inr (d, W2))"

definition save_asset :: "'r env \<Rightarrow> image \<Rightarrow> string \<Rightarrow> 'r world \<Rightarrow> exn + 'r world" where
  "save_asset E img_at3x name W =
     (case ensure_imageset E name W of
        Inl e \<Rightarrow> Inl e
      | Inr (d, W1) \<Rightarrow>
          (case write_file (path_join d (name @ ''@3x.png'')) (Png img_at3x) W1 of
             Inl e \<Rightarrow> Inl e
           | Inr W2 \<Rightarrow>
               (let w2 = py_int (int_truediv (width img_at3x * 2) 3);
                    h2 = py_int (int_truediv (height img_at3x * 2) 3);
                    img_at2x = Resized img_at3x (w2, h2) LANCZOS
                in write_file (path_join d (name @ ''@2x.png'')) (Png img_at2x) W2)))"

text \<open>
  A draw function receives the canvas, its size and the scale; it issues draw calls and
  may use the global random generator. Its model returns the calls it issued, in order,
  and the generator state it leaves.
\<close>

type_synonym 'r draw_func = "'r \<Rightarrow> int \<Rightarrow> int \<Rightarrow> int \<Rightarrow> exn + (cmd list \<times> 'r)"

definition supersample_draw :: "int \<Rightarrow> int \<Rightarrow> 'r draw_func \<Rightarrow> 'r \<Rightarrow> exn + (image \<times> 'r)" where
  "supersample_draw w3x h3x draw_func g =
     (let sw = w3x * SUPERSAMPLE; sh = h3x * SUPERSAMPLE;
          img = New ''RGBA'' (sw, sh) (RGBA 0 0 0 0)
      in case draw_func g sw sh SUPERSAMPLE of
           Inl e \<Rightarrow> Inl e
         | Inr (cmds, g') \<Rightarrow> Inr (Resized (Drawn img cmds) (w3x, h3x) LANCZOS, g'))"

text \<open>
  Every generator ends with \<open>img = supersample_draw(W, H, draw_fn); save_asset(img, name)\<close>.
\<close>

definition draw_and_save ::
  "'r env \<Rightarrow> int \<Rightarrow> int \<Rightarrow> 'r draw_func \<Rightarrow> string \<Rightarrow> 'r world \<Rightarrow> exn + 'r world" where
  "draw_and_save E w3x h3x draw_func name W =
     (case supersample_draw w3x h3x draw_func (rng W) of
        Inl e \<Rightarrow> Inl e
      | Inr (img, g') \<Rightarrow> save_asset E img name (W\<lparr>rng := g'\<rparr>))"

text \<open>The directory \<open>d\<close> that \<open>ensure_imageset\<close> creates and returns.\<close>

definition imageset_dir :: "'r env \<Rightarrow> string \<Rightarrow> string" where
  "imageset_dir E name = path_join (ASSETS_DIR E) (name @ ''.imageset'')"

text \<open>The size \<open>(w2, h2)\<close> that \<open>save_asset\<close> computes for the @2x image.\<close>

definition at2x_size :: "image \<Rightarrow> int \<times> int" where
  "at2x_size img = (py_int (int_truediv (width img * 2) 3), py_int (int_truediv (height img * 2) 3))"

section \<open>Drawing helpers of the script\<close>

text \<open>
  A \<open>for\<close> loop whose body issues draw calls and may use the random generator: the
  calls of all iterations in order, and the generator state after the last one.
\<close>

fun for_loop :: "'a list \<Rightarrow> ('a \<Rightarrow> 'r \<Rightarrow> cmd list \<times> 'r) \<Rightarrow> 'r \<Rightarrow> cmd list \<times> 'r" where
  "for_loop [] body g = ([], g)"
| "for_loop (x # xs) body g =
     (case body x g of (cs, g1) \<Rightarrow>
        (case for_loop xs body g1 of (rest, g2) \<Rightarrow> (cs @ rest, g2)))"

definition outlined_ellipse :: "bbox \<Rightarrow> color \<Rightarrow> color \<Rightarrow> int \<Rightarrow> int \<Rightarrow> cmd list" where
  "outlined_ellipse bbox fill outline outline_w s =
     (case bbox of (ox, oy, ox2, oy2) \<Rightarrow>
        [Ellipse (ox - outline_w * s, oy - outline_w * s, ox2 + outline_w * s, oy2 + outline_w * s)
                 (Some outline) None 1,
         Ellipse bbox (Some fill) None 1])"

definition outlined_rect :: "bbox \<Rightarrow> color \<Rightarrow> color \<Rightarrow> int \<Rightarrow> int \<Rightarrow> cmd list" where
  "outlined_rect bbox fill outline outline_w s =
     (case bbox of (ox, oy, ox2, oy2) \<Rightarrow>
        [Rounded_rectangle
           (ox - outline_w * s, oy - outline_w * s, ox2 + outline_w * s, oy2 + outline_w * s)
           (2 * s) (Some outline) None 1,
         Rounded_rectangle bbox (2 * s) (Some fill) None 1])"

definition outlined_circle :: "int \<Rightarrow> int \<Rightarrow> int \<Rightarrow> color \<Rightarrow> color \<Rightarrow> int \<Rightarrow> int \<Rightarrow> cmd list" where
  "outlined_circle cx cy r fill outline outline_w s =
     outlined_ellipse (cx - r, cy - r, cx + r, cy + r) fill outline outline_w s"

text \<open>
  The vertical gradient loop of the three background generators,
  \<open>for y in range(h): t = y / h; r = int(r0 + t * dr); ...; draw.line([(0, y), (w, y)], fill=(r, g, b))\<close>,
  with the six constants of each generator.
\<close>

definition gradient_channel :: "int \<Rightarrow> int \<Rightarrow> pyfloat \<Rightarrow> int" where
  "gradient_channel c0 dc t = py_int (fadd (float_of_int c0) (fmul t (float_of_int dc)))"

definition gradient :: "int \<times> int \<Rightarrow> int \<times> int \<Rightarrow> int \<times> int \<Rightarrow> int \<Rightarrow> int \<Rightarrow> cmd list" where
  "gradient rr gg bb w h =
     map (\<lambda>y. let t = int_truediv y h
              in Line [(0, y), (w, y)]
                      (Some (RGB (gradient_channel (fst rr) (snd rr) t)
                                 (gradient_channel (fst gg) (snd gg) t)
                                 (gradient_channel (fst bb) (snd bb) t))) 0)
         (py_range h)"

subsection \<open>Outlined text\<close>

text \<open>The \<open>try\<close>/\<open>except (OSError, IOError)\<close> cascade at the top of \<open>draw_text_outlined\<close>.\<close>

definition resolve_font :: "'r env \<Rightarrow> int \<Rightarrow> exn + font" where
  "resolve_font E font_size =
     (case truetype E ''/System/Library/Fonts/Helvetica.ttc'' font_size of
        Inr font \<Rightarrow> Inr font
      | Inl e1 \<Rightarrow>
          if e1 \<noteq> OSError then Inl e1
          else (case truetype E ''/System/Library/Fonts/SFNSDisplay.ttf'' font_size of
                  Inr font \<Rightarrow> Inr font
                | Inl e2 \<Rightarrow> if e2 \<noteq> OSError then Inl e2 else Inr DefaultFont))"

text \<open>The offsets \<open>(dx, dy)\<close> at which the two nested loops stamp the outline, in loop order.\<close>

definition halo_offsets :: "int \<Rightarrow> (int \<times> int) list" where
  "halo_offsets ow =
     concat (map (\<lambda>dx. map (\<lambda>dy. (dx, dy))
                          (filter (\<lambda>dy. dx * dx + dy * dy \<le> ow * ow + 1)
                                  (py_range3 (- ow) (ow + 1) 1)))
                 (py_range3 (- ow) (ow + 1) 1))"

definition draw_text_outlined ::
  "'r env \<Rightarrow> int \<times> int \<Rightarrow> string \<Rightarrow> int \<Rightarrow> color \<Rightarrow> color \<Rightarrow> int \<Rightarrow> int \<Rightarrow> exn + (cmd list \<times> font)" where
  "draw_text_outlined E pos text font_size fill outline_color outline_w s =
     (case pos of (x, y) \<Rightarrow>
        (case resolve_font E font_size of
           Inl e \<Rightarrow> Inl e
         | Inr font \<Rightarrow>
             Inr (map (\<lambda>(dx, dy). Text (x + dx, y + dy) text font (Some outline_color) ''mm'')
                      (halo_offsets outline_w)
                  @ [Text (x, y) text font (Some fill) ''mm''],
                  font)))"

subsection \<open>Sequencing\<close>

text \<open>Statements run in order; the first exception ends the run.\<close>

fun run_all :: "('w \<Rightarrow> exn + 'w) list \<Rightarrow> 'w \<Rightarrow> exn + 'w" where
  "run_all [] W = Inr W"
| "run_all (f # fs) W = (case f W of Inl e \<Rightarrow> Inl e | Inr W' \<Rightarrow> run_all fs W')"

text \<open>\<open>str(n)\<close> of an int, as the f-strings of the sprite names use it.\<close>

fun decimal :: "nat \<Rightarrow> string" where
  "decimal n = (if n < 10 then [''0123456789'' ! n] else decimal (n div 10) @ [''0123456789'' ! (n mod 10)])"

declare decimal.simps [simp del]

definition py_str :: "int \<Rightarrow> string" where
  "py_str i = (if i < 0 then CHR ''-'' # decimal (nat (- i)) else decimal (nat i))"

section \<open>The sprite generators\<close>

subsection \<open>Cow sprites\<close>

definition cow_spot :: "'r env \<Rightarrow> int \<Rightarrow> int \<Rightarrow> int \<Rightarrow> 'r \<Rightarrow> cmd list \<times> 'r" where
  "cow_spot E cx cy s g =
     (case random_randint E (- 30 * s) (30 * s) g of (a, g1) \<Rightarrow>
      case random_randint E (- 15 * s) (15 * s) g1 of (b, g2) \<Rightarrow>
      case random_randint E (6 * s) (12 * s) g2 of (sr, g3) \<Rightarrow>
        (let sx = cx + a; sy = cy + b
         in ([Ellipse (sx - sr, sy - sr div 2, sx + sr, sy + sr div 2) (Some (RGBA 30 30 30 200)) None 1],
             g3)))"

definition cow_leg :: "int \<Rightarrow> int \<Rightarrow> int \<Rightarrow> int \<Rightarrow> cmd list" where
  "cow_leg cx cy s lx =
     (let leg_color = RGB 60 60 60;
          lx_abs = cx + lx * s; ly_top = cy + 20 * s; ly_bot = cy + 40 * s
      in [Rounded_rectangle (lx_abs - 4 * s, ly_top, lx_abs + 4 * s, ly_bot) (2 * s)
            (Some leg_color) None 1,
          Rounded_rectangle (lx_abs - 5 * s, ly_bot - 4 * s, lx_abs + 5 * s, ly_bot + 2 * s) (2 * s)
            (Some (RGB 80 60 40)) None 1])"

definition cow_eye :: "int \<Rightarrow> int \<Rightarrow> int \<Rightarrow> int \<Rightarrow> cmd list" where
  "cow_eye cx head_cy s ex =
     (let ex_abs = cx + ex * s; ey = head_cy - 4 * s
      in [Ellipse (ex_abs - 5 * s, ey - 5 * s, ex_abs + 5 * s, ey + 5 * s) (Some (RGB 255 255 255)) None 1,
          Ellipse (ex_abs - 5 * s, ey - 5 * s, ex_abs + 5 * s, ey + 5 * s) None (Some (RGB 40 40 40)) s,
          Ellipse (ex_abs - 2 * s, ey - 3 * s, ex_abs + 2 * s, ey + 3 * s) (Some (RGB 20 20 20)) None 1,
          Ellipse (ex_abs - 1 * s, ey - 3 * s, ex_abs + 1 * s, ey - 1 * s) (Some (RGB 255 255 255)) None 1])"

definition cow_horn :: "int \<Rightarrow> int \<Rightarrow> int \<Rightarrow> int \<Rightarrow> cmd list" where
  "cow_horn cx head_cy s hx =
     (let hx_abs = cx + hx * s; hy = head_cy - 14 * s
      in [Polygon [(hx_abs - 3 * s, head_cy - 10 * s),
                   (hx_abs + (if hx > 0 then 3 else - 3) * s, hy - 8 * s),
                   (hx_abs + 3 * s, head_cy - 10 * s)]
            (Some (RGB 220 190 130)) (Some (RGB 40 40 40)) 1])"

definition cow_ear :: "int \<Rightarrow> int \<Rightarrow> int \<Rightarrow> int \<Rightarrow> cmd list" where
  "cow_ear cx head_cy s ex_sign =
     (let ear_cx = cx + ex_sign * 15 * s; ear_cy = head_cy - 6 * s
      in [Ellipse (ear_cx - 5 * s, ear_cy - 3 * s, ear_cx + 5 * s, ear_cy + 3 * s)
            (Some (RGB 255 220 200)) (Some (RGB 40 40 40)) s])"

definition cow_tail_points :: "'r env \<Rightarrow> int \<Rightarrow> int \<Rightarrow> int \<Rightarrow> (int \<times> int) list" where
  "cow_tail_points E tx ty s =
     map (\<lambda>i. let t = fdiv (float_of_int i) (float_lit 19);
                  px = tx + py_int (fmul (fmul t (float_of_int 12)) (float_of_int s));
                  py = ty + py_int (fmul (fmul (math_sin E (fmul (fmul t math_pi) (float_of_int 2)))
                                               (float_of_int 8)) (float_of_int s))
                          - py_int (fmul (fmul t (float_of_int 15)) (float_of_int s))
              in (px, py))
         (py_range 20)"

definition cow_tail :: "'r env \<Rightarrow> int \<Rightarrow> int \<Rightarrow> int \<Rightarrow> cmd list" where
  "cow_tail E cx cy s =
     (let tx = cx + 46 * s; ty = cy - 5 * s;
          points = cow_tail_points E tx ty s
      in if length points > 1
         then (let tp = last points
               in [Line points (Some (RGB 60 60 60)) (2 * s),
                   Ellipse (fst tp - 4 * s, snd tp - 4 * s, fst tp + 4 * s, snd tp + 4 * s)
                     (Some (RGB 30 30 30)) None 1])
         else [])"

definition draw_cow :: "'r env \<Rightarrow> int \<Rightarrow> 'r draw_func" where
  "draw_cow E variant g w h s =
     (let cx = w div 2; cy = h div 2;
          bw = 48 * s; bh = 34 * s;
          body = outlined_ellipse (cx - bw, cy - bh + 4 * s, cx + bw, cy + bh + 4 * s)
                   (RGB 255 255 255) (RGB 40 40 40) 2 s;
          g0 = random_seed E (variant * 42)
      in case for_loop (py_range 4) (\<lambda>_. cow_spot E cx cy s) g0 of (spots, g1) \<Rightarrow>
        (let legs = concat (map (cow_leg cx cy s) [- 28, - 10, 10, 28]);
             head_cy = cy - 26 * s;
             head = outlined_circle cx head_cy (16 * s) (RGB 255 255 255) (RGB 40 40 40) 2 s;
             snout = outlined_ellipse (cx - 10 * s, head_cy + 2 * s, cx + 10 * s, head_cy + 14 * s)
                       (RGB 255 210 180) (RGB 40 40 40) 1 s;
             nostrils =
               [Ellipse (cx - 5 * s, head_cy + 6 * s, cx - 2 * s, head_cy + 10 * s) (Some (RGB 80 50 50)) None 1,
                Ellipse (cx + 2 * s, head_cy + 6 * s, cx + 5 * s, head_cy + 10 * s) (Some (RGB 80 50 50)) None 1];
             eyes = concat (map (cow_eye cx head_cy s) [- 7, 7]);
             horns = concat (map (cow_horn cx head_cy s) [- 10, 10]);
             ears = concat (map (cow_ear cx head_cy s) [- 1, 1])
         in Inr (body @ spots @ legs @ head @ snout @ nostrils @ eyes @ horns @ ears @ cow_tail E cx cy s,
                 g1)))"

definition generate_cow_walk :: "'r env \<Rightarrow> 'r world \<Rightarrow> exn + 'r world" where
  "generate_cow_walk E =
     run_all (map (\<lambda>variant. draw_and_save E 156 132 (draw_cow E variant) (''cow_walk_'' @ py_str variant))
                  [1, 2])"

definition drowning_wave :: "'r env \<Rightarrow> int \<Rightarrow> int \<Rightarrow> int \<Rightarrow> cmd" where
  "drowning_wave E water_y s wx =
     (let wy = water_y + py_int (fmul (fmul (math_sin E (int_truediv wx (12 * s))) (float_of_int 3))
                                      (float_of_int s))
      in Ellipse (wx, wy - 2 * s, wx + 6 * s, wy + 2 * s) (Some (RGBA 80 140 220 200)) None 1)"

definition drowning_spot :: "'r env \<Rightarrow> int \<Rightarrow> int \<Rightarrow> int \<Rightarrow> 'r \<Rightarrow> cmd list \<times> 'r" where
  "drowning_spot E cx cy s g =
     (case random_randint E (- 25 * s) (25 * s) g of (a, g1) \<Rightarrow>
      case random_randint E (- 10 * s) (5 * s) g1 of (b, g2) \<Rightarrow>
      case random_randint E (5 * s) (10 * s) g2 of (sr, g3) \<Rightarrow>
        (let sx = cx + a; sy = cy + b
         in ([Ellipse (sx - sr, sy - sr div 2, sx + sr, sy + sr div 2) (Some (RGBA 30 30 30 180)) None 1],
             g3)))"

definition drowning_eye :: "int \<Rightarrow> int \<Rightarrow> int \<Rightarrow> int \<Rightarrow> cmd list" where
  "drowning_eye cx head_cy s ex =
     (let ex_abs = cx + ex * s; ey = head_cy - 2 * s
      in [Ellipse (ex_abs - 5 * s, ey - 6 * s, ex_abs + 5 * s, ey + 6 * s) (Some (RGB 255 255 255)) None 1,
          Ellipse (ex_abs - 5 * s, ey - 6 * s, ex_abs + 5 * s, ey + 6 * s) None (Some (RGB 40 40 40)) s,
          Ellipse (ex_abs - 2 * s, ey - 2 * s, ex_abs + 2 * s, ey + 4 * s) (Some (RGB 20 20 20)) None 1,
          Ellipse (ex_abs - 1 * s, ey - 3 * s, ex_abs + 1 * s, ey - 1 * s) (Some (RGB 255 255 255)) None 1])"

definition drowning_horn :: "int \<Rightarrow> int \<Rightarrow> int \<Rightarrow> int \<Rightarrow> cmd list" where
  "drowning_horn cx head_cy s hx =
     (let hx_abs = cx + hx * s; hy = head_cy - 12 * s
      in [Polygon [(hx_abs - 3 * s, head_cy - 8 * s),
                   (hx_abs + (if hx > 0 then 3 else - 3) * s, hy - 6 * s),
                   (hx_abs + 3 * s, head_cy - 8 * s)]
            (Some (RGB 220 190 130)) (Some (RGB 40 40 40)) 1])"

definition cow_drowning_draw_fn :: "'r env \<Rightarrow> 'r draw_func" where
  "cow_drowning_draw_fn E g w h s =
     (let cx = w div 2; cy = h div 2 - 8 * s;
          water_y = h div 2 + 10 * s;
          water = [Rectangle (0, water_y, w, h) (Some (RGBA 50 90 160 180)) None 1]
      in if 8 * s = 0 then Inl ValueError
         else
          (let waves = map (drowning_wave E water_y s) (py_range3 0 w (8 * s));
               bw = 42 * s; bh = 24 * s;
               body = outlined_ellipse (cx - bw, cy - bh, cx + bw, cy + bh)
                        (RGB 255 255 255) (RGB 40 40 40) 2 s;
               g0 = random_seed E 99
           in case for_loop (py_range 3) (\<lambda>_. drowning_spot E cx cy s) g0 of (spots, g1) \<Rightarrow>
             (let head_cy = cy - 20 * s;
                  head = outlined_circle cx head_cy (14 * s) (RGB 255 255 255) (RGB 40 40 40) 2 s;
                  eyes = concat (map (drowning_eye cx head_cy s) [- 6, 6]);
                  mouth = [Arc (cx - 8 * s, head_cy + 4 * s, cx + 8 * s, head_cy + 14 * s) 0 180
                             (Some (RGB 40 40 40)) (2 * s)];
                  horns = concat (map (drowning_horn cx head_cy s) [- 9, 9])
              in Inr (water @ waves @ body @ spots @ head @ eyes @ mouth @ horns, g1))))"

definition generate_cow_drowning :: "'r env \<Rightarrow> 'r world \<Rightarrow> exn + 'r world" where
  "generate_cow_drowning E = draw_and_save E 156 108 (cow_drowning_draw_fn E) ''cow_drowning''"

subsection \<open>Farmer\<close>

definition farmer_leg :: "int \<Rightarrow> int \<Rightarrow> int \<Rightarrow> int \<Rightarrow> cmd list" where
  "farmer_leg cx cy s lx =
     (let lx_abs = cx + lx * s
      in [Rounded_rectangle (lx_abs - 6 * s, cy + 36 * s, lx_abs + 6 * s, cy + 65 * s) (3 * s)
            (Some (RGB 50 80 140)) None 1,
          Rounded_rectangle (lx_abs - 7 * s, cy + 58 * s, lx_abs + 8 * s, cy + 68 * s) (2 * s)
            (Some (RGB 100 60 30)) (Some (RGB 60 40 20)) 1])"

definition farmer_arm :: "int \<Rightarrow> int \<Rightarrow> int \<Rightarrow> int \<Rightarrow> cmd list" where
  "farmer_arm cx cy s ax_sign =
     (let ax = cx + ax_sign * 28 * s
      in [Rounded_rectangle (ax - 6 * s, cy, ax + 6 * s, cy + 30 * s) (3 * s)
            (Some (RGB 210 160 110)) (Some (RGB 160 110 60)) 1,
          Ellipse (ax - 7 * s, cy + 26 * s, ax + 7 * s, cy + 36 * s) (Some (RGB 220 170 120)) None 1])"

definition farmer_eye :: "int \<Rightarrow> int \<Rightarrow> int \<Rightarrow> int \<Rightarrow> cmd list" where
  "farmer_eye cx head_cy s ex =
     (let ex_abs = cx + ex * s; ey = head_cy - 2 * s
      in [Ellipse (ex_abs - 5 * s, ey - 6 * s, ex_abs + 5 * s, ey + 6 * s) (Some (RGB 255 255 255)) None 1,
          Ellipse (ex_abs - 5 * s, ey - 6 * s, ex_abs + 5 * s, ey + 6 * s) None (Some (RGB 40 40 40)) s,
          Ellipse (ex_abs - 2 * s, ey - 2 * s, ex_abs + 2 * s, ey + 3 * s) (Some (RGB 50 100 50)) None 1,
          Ellipse (ex_abs - 1 * s, ey - 3 * s, ex_abs + 1 * s, ey - 1 * s) (Some (RGB 255 255 255)) None 1])"

definition farmer_draw_fn :: "'r draw_func" where
  "farmer_draw_fn g w h s =
     (let cx = w div 2; cy = h div 2;
          legs = concat (map (farmer_leg cx cy s) [- 12, 12]);
          body = outlined_ellipse (cx - 24 * s, cy - 10 * s, cx + 24 * s, cy + 42 * s)
                   (RGB 50 100 180) (RGB 30 60 120) 2 s;
          straps =
            [Line [(cx - 16 * s, cy - 6 * s), (cx - 8 * s, cy + 10 * s)] (Some (RGB 40 80 150)) (3 * s),
             Line [(cx + 16 * s, cy - 6 * s), (cx + 8 * s, cy + 10 * s)] (Some (RGB 40 80 150)) (3 * s)];
          pocket =
            [Rounded_rectangle (cx - 8 * s, cy + 16 * s, cx + 8 * s, cy + 28 * s) (2 * s)
               (Some (RGB 40 80 150)) (Some (RGB 30 60 120)) s];
          arms = concat (map (farmer_arm cx cy s) [- 1, 1]);
          head_cy = cy - 28 * s;
          head = outlined_circle cx head_cy (22 * s) (RGB 220 170 120) (RGB 180 130 80) 2 s;
          eyes = concat (map (farmer_eye cx head_cy s) [- 9, 9]);
          smile = [Arc (cx - 10 * s, head_cy + 4 * s, cx + 10 * s, head_cy + 16 * s) 10 170
                     (Some (RGB 40 40 40)) (2 * s)];
          nose = [Ellipse (cx - 3 * s, head_cy + 1 * s, cx + 3 * s, head_cy + 6 * s)
                    (Some (RGB 200 150 100)) None 1];
          hat_cy = head_cy - 24 * s;
          hat =
            [Ellipse (cx - 32 * s, hat_cy - 2 * s, cx + 32 * s, hat_cy + 10 * s)
               (Some (RGB 140 90 40)) (Some (RGB 90 60 20)) s,
             Rounded_rectangle (cx - 18 * s, hat_cy - 20 * s, cx + 18 * s, hat_cy + 4 * s) (4 * s)
               (Some (RGB 160 100 40)) (Some (RGB 100 65 25)) s,
             Rectangle (cx - 18 * s, hat_cy - 4 * s, cx + 18 * s, hat_cy + 1 * s)
               (Some (RGB 180 40 40)) None 1]
      in Inr (legs @ body @ straps @ pocket @ arms @ head @ eyes @ smile @ nose @ hat, g))"

definition generate_farmer :: "'r env \<Rightarrow> 'r world \<Rightarrow> exn + 'r world" where
  "generate_farmer E = draw_and_save E 180 216 farmer_draw_fn ''farmer''"

subsection \<open>Backgrounds\<close>

definition background_blade :: "'r env \<Rightarrow> int \<Rightarrow> int \<Rightarrow> int \<Rightarrow> 'r \<Rightarrow> cmd list \<times> 'r" where
  "background_blade E w h s g =
     (case random_randint E 0 w g of (gx, g1) \<Rightarrow>
      case random_randint E 0 h g1 of (gy, g2) \<Rightarrow>
      case random_randint E (6 * s) (14 * s) g2 of (gh, g3) \<Rightarrow>
      case random_randint E (- 3 * s) (3 * s) g3 of (lean, g4) \<Rightarrow>
      case random_randint E (- 20) 20 g4 of (green_var, g5) \<Rightarrow>
        (let color = RGBA (60 + green_var) (160 + green_var) (30 + green_var) 120
         in ([Line [(gx, gy), (gx + lean, gy - gh)] (Some color) (max 1 s)], g5)))"

definition background_grass_draw_fn :: "'r env \<Rightarrow> 'r draw_func" where
  "background_grass_draw_fn E g w h s =
     (let g0 = random_seed E 7;
          grad = gradient (60, 30) (140, 40) (30, 20) w h
      in case for_loop (py_range 200) (\<lambda>_. background_blade E w h s) g0 of (blades, g1) \<Rightarrow>
           Inr (grad @ blades, g1))"

definition generate_background_grass :: "'r env \<Rightarrow> 'r world \<Rightarrow> exn + 'r world" where
  "generate_background_grass E = draw_and_save E 512 512 (background_grass_draw_fn E) ''background_grass''"

definition pasture_blade :: "'r env \<Rightarrow> int \<Rightarrow> int \<Rightarrow> int \<Rightarrow> 'r \<Rightarrow> cmd list \<times> 'r" where
  "pasture_blade E w h s g =
     (case random_randint E 0 w g of (gx, g1) \<Rightarrow>
      case random_randint E 0 h g1 of (gy, g2) \<Rightarrow>
      case random_randint E (4 * s) (10 * s) g2 of (gh, g3) \<Rightarrow>
      case random_randint E (- 2 * s) (2 * s) g3 of (lean, g4) \<Rightarrow>
        ([Line [(gx, gy), (gx + lean, gy - gh)] (Some (RGBA 50 140 25 100)) (max 1 s)], g4))"

definition pasture_petal :: "'r env \<Rightarrow> int \<Rightarrow> int \<Rightarrow> int \<Rightarrow> color \<Rightarrow> int \<Rightarrow> int \<Rightarrow> cmd" where
  "pasture_petal E fx fy fr pc s angle =
     (let px = fx + py_int (fmul (math_cos E (math_radians (float_of_int angle))) (float_of_int fr));
          py = fy + py_int (fmul (math_sin E (math_radians (float_of_int angle))) (float_of_int fr))
      in Ellipse (px - 2 * s, py - 2 * s, px + 2 * s, py + 2 * s) (Some pc) None 1)"

definition pasture_flower :: "'r env \<Rightarrow> int \<Rightarrow> int \<Rightarrow> int \<Rightarrow> 'r \<Rightarrow> cmd list \<times> 'r" where
  "pasture_flower E w h s g =
     (case random_randint E 0 w g of (fx, g1) \<Rightarrow>
      case random_randint E 0 h g1 of (fy, g2) \<Rightarrow>
        (let petal_colors = [RGB 255 200 50, RGB 255 100 100, RGB 200 100 255, RGB 255 255 255]
         in case random_choice E petal_colors g2 of (pc, g3) \<Rightarrow>
            case random_randint E (3 * s) (5 * s) g3 of (fr, g4) \<Rightarrow>
              (map (pasture_petal E fx fy fr pc s) (py_range3 0 360 72)
               @ [Ellipse (fx - 2 * s, fy - 2 * s, fx + 2 * s, fy + 2 * s) (Some (RGB 255 220 50)) None 1],
               g4)))"

definition safe_pasture_draw_fn :: "'r env \<Rightarrow> 'r draw_func" where
  "safe_pasture_draw_fn E g w h s =
     (let g0 = random_seed E 13;
          grad = gradient (40, 25) (120, 30) (20, 15) w h
      in case for_loop (py_range 150) (\<lambda>_. pasture_blade E w h s) g0 of (blades, g1) \<Rightarrow>
         case for_loop (py_range 30) (\<lambda>_. pasture_flower E w h s) g1 of (flowers, g2) \<Rightarrow>
           Inr (grad @ blades @ flowers, g2))"

definition generate_safe_pasture :: "'r env \<Rightarrow> 'r world \<Rightarrow> exn + 'r world" where
  "generate_safe_pasture E = draw_and_save E 512 512 (safe_pasture_draw_fn E) ''safe_pasture''"

subsection \<open>Ditch water and ditch edge\<close>

definition ditch_wave_points :: "'r env \<Rightarrow> int \<Rightarrow> int \<Rightarrow> pyfloat \<Rightarrow> int \<Rightarrow> (int \<times> int) list" where
  "ditch_wave_points E w s phase wy_base =
     map (\<lambda>wx. let wy = wy_base
                       + py_int (fmul (fmul (math_sin E (fadd (int_truediv wx (30 * s)) phase))
                                            (float_of_int 4)) (float_of_int s))
               in (wx, wy))
         (py_range3 0 w (4 * s))"

definition ditch_wave_row :: "'r env \<Rightarrow> int \<Rightarrow> int \<Rightarrow> pyfloat \<Rightarrow> int \<Rightarrow> cmd list" where
  "ditch_wave_row E w s phase wy_base =
     (let points = ditch_wave_points E w s phase wy_base
      in if length points > 1 then [Line points (Some (RGBA 80 140 220 100)) (2 * s)] else [])"

definition ditch_waves :: "'r env \<Rightarrow> int \<Rightarrow> int \<Rightarrow> int \<Rightarrow> pyfloat \<Rightarrow> cmd list" where
  "ditch_waves E w h s phase = concat (map (ditch_wave_row E w s phase) (py_range3 0 h (12 * s)))"

definition ditch_shimmer :: "'r env \<Rightarrow> int \<Rightarrow> int \<Rightarrow> int \<Rightarrow> 'r \<Rightarrow> cmd list \<times> 'r" where
  "ditch_shimmer E w h s g =
     (case random_randint E 0 w g of (sx, g1) \<Rightarrow>
      case random_randint E 0 h g1 of (sy, g2) \<Rightarrow>
      case random_randint E (8 * s) (20 * s) g2 of (sw, g3) \<Rightarrow>
        ([Ellipse (sx, sy, sx + sw, sy + 2 * s) (Some (RGBA 150 200 255 60)) None 1], g3))"

definition ditch_water_draw_fn :: "'r env \<Rightarrow> int \<Rightarrow> 'r draw_func" where
  "ditch_water_draw_fn E frame g w h s =
     (let g0 = random_seed E (frame * 100);
          grad = gradient (30, 20) (60, 40) (140, 40) w h;
          phase = fmul (float_of_int frame) (float_lit (21 / 10))
      in if 12 * s = 0 then Inl ValueError
         else
          (let waves = ditch_waves E w h s phase
           in case for_loop (py_range 20) (\<lambda>_. ditch_shimmer E w h s) g0 of (shimmer, g1) \<Rightarrow>
                Inr (grad @ waves @ shimmer, g1)))"

definition generate_ditch_water :: "'r env \<Rightarrow> 'r world \<Rightarrow> exn + 'r world" where
  "generate_ditch_water E =
     run_all (map (\<lambda>frame. draw_and_save E 512 160 (ditch_water_draw_fn E frame)
                             (''ditch_water_'' @ py_str frame))
                  (py_range3 1 4 1))"

definition edge_speck :: "'r env \<Rightarrow> int \<Rightarrow> int \<Rightarrow> int \<Rightarrow> 'r \<Rightarrow> cmd list \<times> 'r" where
  "edge_speck E w h s g =
     (case random_randint E 0 w g of (x, g1) \<Rightarrow>
      case random_randint E 0 h g1 of (y, g2) \<Rightarrow>
      case random_randint E (1 * s) (3 * s) g2 of (r, g3) \<Rightarrow>
      case random_randint E (- 20) 20 g3 of (shade, g4) \<Rightarrow>
        ([Ellipse (x - r, y - r, x + r, y + r) (Some (RGB (100 + shade) (60 + shade) (30 + shade))) None 1],
         g4))"

definition edge_grass :: "'r env \<Rightarrow> int \<Rightarrow> int \<Rightarrow> 'r \<Rightarrow> cmd list \<times> 'r" where
  "edge_grass E s x g =
     (case random_randint E (2 * s) (6 * s) g of (gh, g1) \<Rightarrow>
      case random_randint E (- 1 * s) (1 * s) g1 of (lean, g2) \<Rightarrow>
        ([Line [(x, 0), (x + lean, - gh)] (Some (RGBA 70 150 30 180)) (max 1 s)], g2))"

definition ditch_edge_draw_fn :: "'r env \<Rightarrow> 'r draw_func" where
  "ditch_edge_draw_fn E g w h s =
     (let g0 = random_seed E 55;
          dirt = [Rectangle (0, 0, w, h) (Some (RGB 120 80 40)) None 1]
      in case for_loop (py_range 80) (\<lambda>_. edge_speck E w h s) g0 of (texture, g1) \<Rightarrow>
           if 3 * s = 0 then Inl ValueError
           else (case for_loop (py_range3 0 w (3 * s)) (edge_grass E s) g1 of (grass, g2) \<Rightarrow>
                   Inr (dirt @ texture @ grass, g2)))"

definition generate_ditch_edge :: "'r env \<Rightarrow> 'r world \<Rightarrow> exn + 'r world" where
  "generate_ditch_edge E = draw_and_save E 512 24 (ditch_edge_draw_fn E) ''ditch_edge''"

subsection \<open>Fence and gate\<close>

definition post_grain :: "'r env \<Rightarrow> int \<Rightarrow> int \<Rightarrow> int \<Rightarrow> 'r \<Rightarrow> cmd list \<times> 'r" where
  "post_grain E w h s g =
     (case random_randint E (4 * s) (w - 4 * s) g of (gx, g1) \<Rightarrow>
      case random_randint E 0 (h div 4) g1 of (y1, g2) \<Rightarrow>
      case random_randint E (- 2 * s) (2 * s) g2 of (dx, g3) \<Rightarrow>
      case random_randint E (h * 3 div 4) h g3 of (y2, g4) \<Rightarrow>
        ([Line [(gx, y1), (gx + dx, y2)] (Some (RGBA 120 75 35 80)) (max 1 s)], g4))"

definition fence_post_draw_fn :: "'r env \<Rightarrow> 'r draw_func" where
  "fence_post_draw_fn E g w h s =
     (let post = [Rounded_rectangle (2 * s, 0, w - 2 * s, h) (3 * s)
                    (Some (RGB 140 90 45)) (Some (RGB 90 55 25)) (2 * s)];
          g0 = random_seed E 22
      in case for_loop (py_range 8) (\<lambda>_. post_grain E w h s) g0 of (grain, g1) \<Rightarrow>
           Inr (post @ grain
                @ [Ellipse (w div 2 - 2 * s, 6 * s, w div 2 + 2 * s, 10 * s) (Some (RGB 80 80 80)) None 1],
                g1))"

definition generate_fence_post :: "'r env \<Rightarrow> 'r world \<Rightarrow> exn + 'r world" where
  "generate_fence_post E = draw_and_save E 24 120 (fence_post_draw_fn E) ''fence_post''"

definition rail_grain :: "'r env \<Rightarrow> int \<Rightarrow> int \<Rightarrow> int \<Rightarrow> 'r \<Rightarrow> cmd list \<times> 'r" where
  "rail_grain E w h s g =
     (case random_randint E (3 * s) (h - 3 * s) g of (gy, g1) \<Rightarrow>
      case random_randint E 0 (w div 3) g1 of (gx1, g2) \<Rightarrow>
      case random_randint E (w * 2 div 3) w g2 of (gx2, g3) \<Rightarrow>
        ([Line [(gx1, gy), (gx2, gy)] (Some (RGBA 140 85 40 60)) (max 1 s)], g3))"

definition fence_rail_draw_fn :: "'r env \<Rightarrow> 'r draw_func" where
  "fence_rail_draw_fn E g w h s =
     (let rail = [Rounded_rectangle (0, 2 * s, w, h - 2 * s) (2 * s)
                    (Some (RGB 160 105 55)) (Some (RGB 100 65 30)) s];
          g0 = random_seed E 33
      in case for_loop (py_range 15) (\<lambda>_. rail_grain E w h s) g0 of (grain, g1) \<Rightarrow>
           Inr (rail @ grain, g1))"

definition generate_fence_rail :: "'r env \<Rightarrow> 'r world \<Rightarrow> exn + 'r world" where
  "generate_fence_rail E = draw_and_save E 512 18 (fence_rail_draw_fn E) ''fence_rail''"

definition door_plank :: "int \<Rightarrow> int \<Rightarrow> int \<Rightarrow> int \<Rightarrow> cmd list" where
  "door_plank plank_w h s i =
     (let px = i * plank_w;
          shade = [0, 10, - 5, 8] ! nat i;
          color = RGB (150 + shade) (95 + shade) (45 + shade)
      in [Rectangle (px + s, 2 * s, px + plank_w - s, h - 2 * s) (Some color) None 1,
          Rectangle (px + s, 2 * s, px + plank_w - s, h - 2 * s) None (Some (RGB 100 60 25)) s])"

definition door_hinge :: "int \<Rightarrow> int \<Rightarrow> pyfloat \<Rightarrow> cmd list" where
  "door_hinge h s hy_ratio =
     (let hy = py_int (fmul (float_of_int h) hy_ratio)
      in [Rounded_rectangle (0, hy - 3 * s, 12 * s, hy + 3 * s) s (Some (RGB 60 60 60)) None 1,
          Ellipse (8 * s, hy - 2 * s, 12 * s, hy + 2 * s) (Some (RGB 50 50 50)) None 1])"

definition gate_door_draw_fn :: "'r draw_func" where
  "gate_door_draw_fn g w h s =
     (let plank_w = w div 4;
          planks = concat (map (door_plank plank_w h s) (py_range 4));
          brace =
            [Line [(4 * s, 4 * s), (w - 4 * s, h - 4 * s)] (Some (RGB 120 70 30)) (3 * s),
             Line [(4 * s, h - 4 * s), (w - 4 * s, 4 * s)] (Some (RGB 120 70 30)) (3 * s)];
          hinges = concat (map (door_hinge h s) [float_lit (2 / 10), float_lit (8 / 10)])
      in Inr (planks @ brace @ hinges, g))"

definition generate_gate_door :: "'r env \<Rightarrow> 'r world \<Rightarrow> exn + 'r world" where
  "generate_gate_door E = draw_and_save E 240 108 gate_door_draw_fn ''gate_door''"

definition gate_post_grain :: "'r env \<Rightarrow> int \<Rightarrow> int \<Rightarrow> int \<Rightarrow> 'r \<Rightarrow> cmd list \<times> 'r" where
  "gate_post_grain E w h s g =
     (case random_randint E (5 * s) (w - 5 * s) g of (gx, g1) \<Rightarrow>
      case random_randint E (- s) s g1 of (dx, g2) \<Rightarrow>
        ([Line [(gx, 10 * s), (gx + dx, h - 5 * s)] (Some (RGBA 100 60 25 70)) (max 1 s)], g2))"

definition gate_post_draw_fn :: "'r env \<Rightarrow> 'r draw_func" where
  "gate_post_draw_fn E g w h s =
     (let post = [Rounded_rectangle (3 * s, 8 * s, w - 3 * s, h) (3 * s)
                    (Some (RGB 120 75 35)) (Some (RGB 80 50 20)) (2 * s)];
          g0 = random_seed E 44
      in case for_loop (py_range 6) (\<lambda>_. gate_post_grain E w h s) g0 of (grain, g1) \<Rightarrow>
           Inr (post @ grain
                @ [Rounded_rectangle (2 * s, 0, w - 2 * s, 12 * s) (2 * s)
                     (Some (RGB 70 70 70)) (Some (RGB 40 40 40)) s,
                   Line [(5 * s, 3 * s), (w - 5 * s, 3 * s)] (Some (RGBA 100 100 100 150)) s],
                g1))"

definition generate_gate_post :: "'r env \<Rightarrow> 'r world \<Rightarrow> exn + 'r world" where
  "generate_gate_post E = draw_and_save E 36 144 (gate_post_draw_fn E) ''gate_post''"

subsection \<open>Clouds\<close>

definition cloud_puff :: "'r env \<Rightarrow> int \<Rightarrow> int \<Rightarrow> int \<Rightarrow> int \<Rightarrow> int \<times> int \<times> int \<Rightarrow> 'r \<Rightarrow> cmd list \<times> 'r" where
  "cloud_puff E v cx cy s puff g =
     (case puff of (px0, py0, pr0) \<Rightarrow>
      case random_randint E (- 5) 5 g of (a, g1) \<Rightarrow>
      case random_randint E (- 3) 3 g1 of (b, g2) \<Rightarrow>
      case random_randint E (- 3) 3 g2 of (c, g3) \<Rightarrow>
        (let px = px0 + a; py = py0 + b;
             pr = max 12 (pr0 + (c + (v - 2) * 2));
             x = cx + px * s; y = cy + py * s; r = pr * s
         in ([Ellipse (x - r, y - r + 4 * s, x + r, y + r + 4 * s) (Some (RGBA 200 200 210 40)) None 1,
              Ellipse (x - r, y - r, x + r, y + r) (Some (RGBA 255 255 255 230)) None 1],
             g3)))"

definition cloud_highlight :: "int \<Rightarrow> int \<Rightarrow> int \<Rightarrow> int \<Rightarrow> int \<times> int \<times> int \<Rightarrow> cmd list" where
  "cloud_highlight v cx cy s puff =
     (case puff of (px, py, pr) \<Rightarrow>
        (let x = cx + px * s; y = cy + py * s; r = (pr + (v - 2)) * s
         in [Ellipse (x - r, y - r, x + r, y + r) (Some (RGBA 255 255 255 250)) None 1]))"

definition clouds_draw_fn :: "'r env \<Rightarrow> int \<Rightarrow> 'r draw_func" where
  "clouds_draw_fn E v g w h s =
     (let cx = w div 2; cy = h div 2 + 10 * s;
          g0 = random_seed E (v * 77);
          puffs = [(0, 0, 35), (- 30, 5, 28), (25, 3, 30), (- 15, - 10, 25),
                   (18, - 8, 22), (35, 8, 20), (- 38, 10, 18)]
      in case for_loop puffs (cloud_puff E v cx cy s) g0 of (drawn, g1) \<Rightarrow>
           Inr (drawn @ concat (map (cloud_highlight v cx cy s) [(- 5, - 12, 20), (10, - 10, 18)]), g1))"

definition generate_clouds :: "'r env \<Rightarrow> 'r world \<Rightarrow> exn + 'r world" where
  "generate_clouds E =
     run_all (map (\<lambda>variant. draw_and_save E 240 120 (clouds_draw_fn E variant)
                               (''cloud_'' @ py_str variant))
                  (py_range3 1 4 1))"

subsection \<open>UI elements\<close>

definition title_logo_draw_fn :: "'r env \<Rightarrow> 'r draw_func" where
  "title_logo_draw_fn E g w h s =
     (let cx = w div 2; cy = h div 2;
          banner = [Rounded_rectangle (20 * s, 20 * s, w - 20 * s, h - 20 * s) (20 * s)
                      (Some (RGBA 60 130 40 200)) (Some (RGB 40 90 25)) (3 * s)]
      in case draw_text_outlined E (cx, cy - 12 * s) ''COWS IN'' (42 * s)
                (RGB 255 255 255) (RGB 40 40 40) (3 * s) s of
           Inl e \<Rightarrow> Inl e
         | Inr (line1, font1) \<Rightarrow>
             (case draw_text_outlined E (cx, cy + 30 * s) ''THE DITCH'' (48 * s)
                     (RGB 255 230 80) (RGB 40 40 40) (3 * s) s of
                Inl e \<Rightarrow> Inl e
              | Inr (line2, font2) \<Rightarrow> Inr (banner @ line1 @ line2, g)))"

definition generate_title_logo :: "'r env \<Rightarrow> 'r world \<Rightarrow> exn + 'r world" where
  "generate_title_logo E = draw_and_save E 900 240 (title_logo_draw_fn E) ''title_logo''"

definition button_draw_fn :: "'r env \<Rightarrow> string \<Rightarrow> int \<times> int \<times> int \<Rightarrow> 'r draw_func" where
  "button_draw_fn E text color gs w h s =
     (case color of (r, g, b) \<Rightarrow>
        (let cx = w div 2; cy = h div 2;
             chrome =
               [Rounded_rectangle (8 * s, 12 * s, w - 8 * s, h - 4 * s) (20 * s)
                  (Some (RGBA 0 0 0 80)) None 1,
                Rounded_rectangle (8 * s, 8 * s, w - 8 * s, h - 12 * s) (20 * s)
                  (Some (RGB r g b)) (Some (RGB (max 0 (r - 40)) (max 0 (g - 40)) (max 0 (b - 40))))
                  (3 * s),
                Rounded_rectangle (16 * s, 12 * s, w - 16 * s, cy - 4 * s) (14 * s)
                  (Some (RGBA (min 255 (r + 40)) (min 255 (g + 40)) (min 255 (b + 40)) 100)) None 1]
         in case draw_text_outlined E (cx, cy - 4 * s) text (40 * s)
                   (RGB 255 255 255) (RGBA 0 0 0 180) (3 * s) s of
              Inl e \<Rightarrow> Inl e
            | Inr (label, font) \<Rightarrow> Inr (chrome @ label, gs)))"

definition generate_button :: "'r env \<Rightarrow> string \<Rightarrow> string \<Rightarrow> int \<times> int \<times> int \<Rightarrow> 'r world \<Rightarrow> exn + 'r world" where
  "generate_button E name text color = draw_and_save E 600 180 (button_draw_fn E text color) name"

definition heart_draw_fn :: "int \<times> int \<times> int \<Rightarrow> int \<Rightarrow> 'r draw_func" where
  "heart_draw_fn color alpha gs w h s =
     (case color of (r, g, b) \<Rightarrow>
        (let cx = w div 2; cy = h div 2;
             hr = 14 * s;
             outline_col = RGBA (max 0 (r - 60)) (max 0 (g - 60)) (max 0 (b - 60)) alpha;
             hl_r = 6 * s
         in Inr ([Ellipse (cx - hr * 2, cy - hr - 4 * s, cx, cy + hr div 2 - 4 * s)
                    (Some (RGBA r g b alpha)) None 1,
                  Ellipse (cx, cy - hr - 4 * s, cx + hr * 2, cy + hr div 2 - 4 * s)
                    (Some (RGBA r g b alpha)) None 1,
                  Polygon [(cx - hr * 2 + 2 * s, cy - 2 * s),
                           (cx + hr * 2 - 2 * s, cy - 2 * s),
                           (cx, cy + hr + 10 * s)]
                    (Some (RGBA r g b alpha)) None 1,
                  Ellipse (cx - hr * 2, cy - hr - 4 * s, cx, cy + hr div 2 - 4 * s)
                    None (Some outline_col) (2 * s),
                  Ellipse (cx, cy - hr - 4 * s, cx + hr * 2, cy + hr div 2 - 4 * s)
                    None (Some outline_col) (2 * s),
                  Ellipse (cx - 8 * s, cy - 10 * s, cx - 8 * s + hl_r * 2, cy - 10 * s + hl_r)
                    (Some (RGBA 255 255 255 (min 255 (alpha div 2)))) None 1],
                 gs)))"

definition generate_heart :: "'r env \<Rightarrow> string \<Rightarrow> int \<times> int \<times> int \<Rightarrow> int \<Rightarrow> 'r world \<Rightarrow> exn + 'r world" where
  "generate_heart E name color alpha = draw_and_save E 84 78 (heart_draw_fn color alpha) name"

definition score_badge_draw_fn :: "'r draw_func" where
  "score_badge_draw_fn g w h s =
     Inr ([Rounded_rectangle (4 * s, 4 * s, w - 4 * s, h - 4 * s) (16 * s)
             (Some (RGBA 40 40 60 200)) (Some (RGBA 80 80 120 200)) (2 * s),
           Rounded_rectangle (8 * s, 8 * s, w - 8 * s, h - 8 * s) (14 * s)
             (Some (RGBA 50 50 70 100)) None 1],
          g)"

definition generate_score_badge :: "'r env \<Rightarrow> 'r world \<Rightarrow> exn + 'r world" where
  "generate_score_badge E = draw_and_save E 480 120 score_badge_draw_fn ''score_badge''"

definition game_over_banner_draw_fn :: "'r env \<Rightarrow> 'r draw_func" where
  "game_over_banner_draw_fn E g w h s =
     (let cx = w div 2; cy = h div 2;
          banner = [Rounded_rectangle (10 * s, 20 * s, w - 10 * s, h - 20 * s) (16 * s)
                      (Some (RGBA 40 15 15 230)) (Some (RGB 180 40 40)) (3 * s)]
      in case draw_text_outlined E (cx, cy) ''GAME OVER'' (56 * s)
                (RGB 255 60 60) (RGB 40 10 10) (4 * s) s of
           Inl e \<Rightarrow> Inl e
         | Inr (label, font) \<Rightarrow> Inr (banner @ label, g))"

definition generate_game_over_banner :: "'r env \<Rightarrow> 'r world \<Rightarrow> exn + 'r world" where
  "generate_game_over_banner E = draw_and_save E 900 240 (game_over_banner_draw_fn E) ''game_over_banner''"

definition gate_indicator_draw_fn :: "int \<times> int \<times> int \<Rightarrow> 'r draw_func" where
  "gate_indicator_draw_fn color gs w h s =
     (case color of (r, g, b) \<Rightarrow>
        Inr ([Ellipse (2 * s, 2 * s, w - 2 * s, h - 2 * s) (Some (RGB 40 40 40)) (Some (RGB 80 80 80)) (2 * s),
              Ellipse (6 * s, 6 * s, w - 6 * s, h - 6 * s) (Some (RGB r g b)) None 1,
              Ellipse (10 * s, 8 * s, w div 2, h div 2 - 2 * s)
                (Some (RGBA (min 255 (r + 80)) (min 255 (g + 80)) (min 255 (b + 80)) 140)) None 1],
             gs))"

definition generate_gate_indicators :: "'r env \<Rightarrow> 'r world \<Rightarrow> exn + 'r world" where
  "generate_gate_indicators E =
     run_all (map (\<lambda>(state, color). draw_and_save E 48 48 (gate_indicator_draw_fn color)
                                     (''gate_indicator_'' @ state))
                  [(''open'', (40, 200, 40)), (''closed'', (200, 40, 40))])"

subsection \<open>Particles\<close>

definition generate_particle ::
  "'r env \<Rightarrow> string \<Rightarrow> int \<Rightarrow> (int \<Rightarrow> int \<Rightarrow> int \<Rightarrow> cmd list) \<Rightarrow> 'r world \<Rightarrow> exn + 'r world" where
  "generate_particle E name size_px draw_func =
     draw_and_save E size_px size_px (\<lambda>g w h s. Inr (draw_func w h s, g)) name"

definition splash :: "int \<Rightarrow> int \<Rightarrow> int \<Rightarrow> cmd list" where
  "splash w h s =
     (let cx = w div 2; cy = h div 2
      in [Ellipse (cx - 5 * s, cy - 3 * s, cx + 5 * s, cy + 5 * s) (Some (RGBA 100 160 240 200)) None 1,
          Polygon [(cx, cy - 6 * s), (cx - 3 * s, cy - 1 * s), (cx + 3 * s, cy - 1 * s)]
            (Some (RGBA 100 160 240 200)) None 1,
          Ellipse (cx - 2 * s, cy - 1 * s, cx + 1 * s, cy + 1 * s) (Some (RGBA 180 220 255 180)) None 1])"

definition dust :: "int \<Rightarrow> int \<Rightarrow> int \<Rightarrow> cmd list" where
  "dust w h s =
     (let cx = w div 2; cy = h div 2
      in [Ellipse (cx - 4 * s, cy - 4 * s, cx + 4 * s, cy + 4 * s) (Some (RGBA 160 130 80 150)) None 1,
          Ellipse (cx - 2 * s, cy - 2 * s, cx + 2 * s, cy + 2 * s) (Some (RGBA 180 150 100 100)) None 1])"

definition grass_blade :: "int \<Rightarrow> int \<Rightarrow> int \<Rightarrow> cmd list" where
  "grass_blade w h s =
     (let cx = w div 2
      in [Polygon [(cx - 2 * s, h - s), (cx + 2 * s, h - s), (cx + s, s), (cx - s, s)]
            (Some (RGBA 60 160 30 180)) None 1])"

definition star_points :: "'r env \<Rightarrow> int \<Rightarrow> int \<Rightarrow> int \<Rightarrow> (int \<times> int) list" where
  "star_points E cx cy s =
     (let r_outer = 6 * s; r_inner = 3 * s
      in map (\<lambda>i. let angle = math_radians (float_of_int (i * 36 - 90));
                      r = (if i mod 2 = 0 then r_outer else r_inner)
                  in (cx + py_int (fmul (math_cos E angle) (float_of_int r)),
                      cy + py_int (fmul (math_sin E angle) (float_of_int r))))
             (py_range 10))"

definition star :: "'r env \<Rightarrow> int \<Rightarrow> int \<Rightarrow> int \<Rightarrow> cmd list" where
  "star E w h s =
     (let cx = w div 2; cy = h div 2;
          points = star_points E cx cy s
      in [Polygon points (Some (RGBA 255 220 50 230)) None 1,
          Polygon points None (Some (RGB 200 170 20)) (max 1 s)])"

definition sparkle :: "int \<Rightarrow> int \<Rightarrow> int \<Rightarrow> cmd list" where
  "sparkle w h s =
     (let cx = w div 2; cy = h div 2; r = 3 * s
      in [Ellipse (cx - r, cy - r, cx + r, cy + r) (Some (RGBA 255 255 255 200)) None 1,
          Ellipse (cx - r div 2, cy - r div 2, cx + r div 2, cy + r div 2)
            (Some (RGBA 255 255 255 250)) None 1])"

definition generate_particles :: "'r env \<Rightarrow> 'r world \<Rightarrow> exn + 'r world" where
  "generate_particles E =
     run_all [generate_particle E ''particle_splash'' 16 splash,
              generate_particle E ''particle_dust'' 12 dust,
              generate_particle E ''particle_grass'' 8 grass_blade,
              generate_particle E ''particle_star'' 16 (star E),
              generate_particle E ''particle_sparkle'' 8 sparkle]"

subsection \<open>The batch\<close>

text \<open>The generators of \<open>main\<close>, in its order; the progress messages are not modelled.\<close>

definition generators :: "'r env \<Rightarrow> (string \<times> ('r world \<Rightarrow> exn + 'r world)) list" where
  "generators E =
     [(''Cow walk sprites'', generate_cow_walk E),
      (''Cow drowning sprite'', generate_cow_drowning E),
      (''Farmer sprite'', generate_farmer E),
      (''Background grass'', generate_background_grass E),
      (''Safe pasture'', generate_safe_pasture E),
      (''Ditch water (3 frames)'', generate_ditch_water E),
      (''Ditch edge'', generate_ditch_edge E),
      (''Fence post'', generate_fence_post E),
      (''Fence rail'', generate_fence_rail E),
      (''Gate door'', generate_gate_door E),
      (''Gate post'', generate_gate_post E),
      (''Clouds (3 variants)'', generate_clouds E),
      (''Title logo'', generate_title_logo E),
      (''Play button'', generate_button E ''button_play'' ''PLAY'' (60, 180, 60)),
      (''Replay button'', generate_button E ''button_replay'' ''PLAY AGAIN'' (60, 160, 60)),
      (''Heart full'', generate_heart E ''heart_full'' (220, 40, 40) 255),
      (''Heart empty'', generate_heart E ''heart_empty'' (120, 120, 120) 100),
      (''Score badge'', generate_score_badge E),
      (''Game over banner'', generate_game_over_banner E),
      (''Gate indicators'', generate_gate_indicators E),
      (''Particle effects'', generate_particles E)]"

definition main :: "'r env \<Rightarrow> 'r world \<Rightarrow> exn + 'r world" where
  "main E = run_all (map snd (generators E))"

section \<open>Properties\<close>

text \<open>A colour channel is valid when it lies in \<open>[0, 255]\<close>; the draw calls of a list have
  valid colours when every colour they pass has valid channels.\<close>

definition channel_ok :: "int \<Rightarrow> bool" where
  "channel_ok c = (0 \<le> c \<and> c \<le> 255)"

fun color_ok :: "color \<Rightarrow> bool" where
  "color_ok (RGB r g b) = (channel_ok r \<and> channel_ok g \<and> channel_ok b)"
| "color_ok (RGBA r g b a) = (channel_ok r \<and> channel_ok g \<and> channel_ok b \<and> channel_ok a)"

fun option_ok :: "color option \<Rightarrow> bool" where
  "option_ok None = True"
| "option_ok (Some c) = color_ok c"

fun cmd_colors_ok :: "cmd \<Rightarrow> bool" where
  "cmd_colors_ok (Ellipse bb f ol wd) = (option_ok f \<and> option_ok ol)"
| "cmd_colors_ok (Rounded_rectangle bb rad f ol wd) = (option_ok f \<and> option_ok ol)"
| "cmd_colors_ok (Rectangle bb f ol wd) = (option_ok f \<and> option_ok ol)"
| "cmd_colors_ok (Polygon ps f ol wd) = (option_ok f \<and> option_ok ol)"
| "cmd_colors_ok (Line ps f wd) = option_ok f"
| "cmd_colors_ok (Arc bb st en f wd) = option_ok f"
| "cmd_colors_ok (Text p t fnt f an) = option_ok f"

definition colors_ok :: "cmd list \<Rightarrow> bool" where
  "colors_ok cmds = list_all cmd_colors_ok cmds"

text \<open>The contract of \<open>random.randint(a, b)\<close>: a value in \<open>[a, b]\<close>.\<close>

definition randint_in_bounds :: "'r env \<Rightarrow> bool" where
  "randint_in_bounds E =
     (\<forall>a b g. a \<le> b \<longrightarrow> a \<le> fst (random_randint E a b g) \<and> fst (random_randint E a b g) \<le> b)"

text \<open>The draw calls a draw function issued (none when it ended with an exception).\<close>

definition issued :: "exn + (cmd list \<times> 'r) \<Rightarrow> cmd list" where
  "issued res = (case res of Inl e \<Rightarrow> [] | Inr (cmds, g) \<Rightarrow> cmds)"

text \<open>
  A generator is deterministic when what it does is fixed by the program alone: either it
  raises the same exception in every world, or in every world it returns, having added the
  same directories and written the same files with the same contents (images included),
  whatever the files and the state of the random generator it started with.
\<close>

definition deterministic :: "('r world \<Rightarrow> exn + 'r world) \<Rightarrow> bool" where
  "deterministic gen =
     ((\<exists>e. \<forall>W. gen W = Inl e) \<or>
      (\<exists>D F. \<forall>W. \<exists>W'. gen W = Inr W' \<and> dirs W' = dirs W \<union> D \<and> files W' = files W ++ F))"

section \<open>Example inputs\<close>

text \<open>
  Concrete inputs on which the theorems below are evaluated: an environment whose random
  generator is a linear congruential generator and in which no font file can be opened,
  an empty file system, a rasteriser that knows only filled rectangles and picks one
  source pixel per resized pixel, and a draw function that paints one rectangle.
\<close>

definition demo_env :: "int env" where
  "demo_env =
     \<lparr>script_dir = ''/game'',
      random_seed = (\<lambda>a. a),
      random_randint = (\<lambda>a b g. (a + g mod (b - a + 1), (g * 1103515245 + 12345) mod 2 ^ 31)),
      random_choice = (\<lambda>xs g. (xs ! nat (g mod int (length xs)), (g * 1103515245 + 12345) mod 2 ^ 31)),
      math_sin = (\<lambda>x. 0),
      math_cos = (\<lambda>x. 1),
      truetype = (\<lambda>path sz. Inl OSError)\<rparr>"

definition empty_world :: "'r \<Rightarrow> 'r world" where
  "empty_world g = \<lparr>rng = g, dirs = {}, files = Map.empty\<rparr>"


definition demo_draw :: "int draw_func" where
  "demo_draw g w h s = Inr ([Rectangle (0, 0, 3, 3) (Some (RGB 255 0 0)) None 1], g)"

section \<open>Rounding\<close>

lemma floor_log2_le:
  assumes "0 < x" shows "2 powi (floor_log2 x) \<le> x"
proof -
  obtain a b where ab: "quotient_of x = (a, b)" by (cases "quotient_of x")
  have b: "0 < b" using ab quotient_of_denom_pos by blast
  have x: "x = of_int a / of_int b" using ab quotient_of_div by blast
  have a: "0 < a" using assms b x by (simp add: zero_less_divide_iff)
  define la lb where "la = bitlen a" and "lb = bitlen b"
  have la1: "1 \<le> la" and lb1: "1 \<le> lb"
    using a b by (auto simp: la_def lb_def bitlen_alt_def)
  have A: "(2::rat) powi (la - 1) \<le> of_int a"
  proof -
    have "(2::int) ^ nat (la - 1) \<le> a" using bitlen_bounds[OF a] by (simp add: la_def)
    then have "(of_int ((2::int) ^ nat (la - 1)) :: rat) \<le> of_int a" by (simp only: of_int_le_iff)
    then show ?thesis using la1 by (simp add: power_int_def)
  qed
  have B: "(of_int b :: rat) \<le> 2 powi lb"
  proof -
    have "b < (2::int) ^ nat lb" using bitlen_bounds[OF b] by (simp add: lb_def)
    then have "(of_int b :: rat) < of_int ((2::int) ^ nat lb)" by (simp only: of_int_less_iff)
    then show ?thesis using lb1 by (simp add: power_int_def)
  qed
  have C: "(2::rat) powi (la - lb - 1) \<le> x"
  proof -
    have "(2::rat) powi (la - lb - 1) = 2 powi (la - 1) / 2 powi lb"
      by (simp add: power_int_diff)
    also have "\<dots> \<le> of_int a / 2 powi lb"
      using A by (simp add: divide_right_mono)
    also have "\<dots> \<le> of_int a / of_int b"
      using B a b by (simp add: divide_left_mono)
    finally show ?thesis using x by simp
  qed
  show ?thesis
    using C by (simp add: floor_log2_def ab la_def lb_def Let_def)
qed

lemma round_half_even_ge_floor: "\<lfloor>y\<rfloor> \<le> round_half_even y"
  by (simp add: round_half_even_def Let_def)

lemma round_half_even_less:
  assumes "y < of_int N - 1 / 2" shows "round_half_even y < N"
proof -
  have f: "\<lfloor>y\<rfloor> < N" using assms by (simp add: floor_less_iff)
  show ?thesis
  proof (cases "\<lfloor>y\<rfloor> = N - 1")
    case True
    then have "y - of_int \<lfloor>y\<rfloor> < 1 / 2" using assms by simp
    then show ?thesis using True by (simp add: round_half_even_def Let_def)
  next
    case False
    then have "\<lfloor>y\<rfloor> + 1 < N" using f by simp
    then show ?thesis by (simp add: round_half_even_def Let_def)
  qed
qed

text \<open>
  Truncating the rounded quotient by 3 gives the integer quotient: the rounded value
  cannot reach the next integer, which is at least a third away.
\<close>

lemma truncated_quotient_by_3:
  assumes n0: "0 \<le> n" and nb: "n < 3 * 2 ^ 52"
  shows "py_int (int_truediv n 3) = n div 3"
proof (cases "n = 0")
  case True
  then show ?thesis by (simp add: int_truediv_def round_binary64_def py_int_def)
next
  case False
  define x :: rat where "x = of_int n / 3"
  define q where "q = n div 3"
  have xpos: "0 < x" using False n0 by (simp add: x_def)
  have xlt: "x < 2 ^ 52"
  proof -
    have "(of_int n :: rat) < of_int (3 * 2 ^ 52)" using nb by (simp only: of_int_less_iff)
    then show ?thesis by (simp add: x_def)
  qed
  define e where "e = max (floor_log2 x) (- 1022)"
  have e51: "e \<le> 51"
  proof (rule ccontr)
    assume "\<not> e \<le> 51"
    then have "52 \<le> floor_log2 x" by (simp add: e_def)
    then have "(2::rat) powi 52 \<le> 2 powi (floor_log2 x)"
      by (intro power_int_increasing) simp_all
    also have "\<dots> \<le> x" by (rule floor_log2_le[OF xpos])
    finally show False using xlt by (simp add: power_int_def)
  qed
  define k where "k = nat (52 - e)"
  have k1: "1 \<le> k" using e51 by (simp add: k_def)
  define K :: int where "K = 2 ^ k"
  have K2: "2 \<le> K" proof -
    have "(2::int) ^ 1 \<le> 2 ^ k" using k1 by (intro power_increasing) simp_all
    then show ?thesis by (simp add: K_def)
  qed
  have ulp: "(2::rat) powi (e - 52) = 1 / of_int K"
    using e51 by (simp add: power_int_def K_def k_def field_simps)
  define R where "R = round_half_even (x * of_int K)"
  have rb: "round_binary64 x = of_int R / of_int K"
    using xpos ulp by (simp add: round_binary64_def e_def[symmetric] Let_def R_def)
  have n_eq: "n = 3 * q + n mod 3" by (simp add: q_def)
  have m2: "n mod 3 \<le> 2" and m0: "0 \<le> n mod 3" by simp_all
  have xq_lo: "of_int q \<le> x"
  proof -
    have "3 * q \<le> n" using n_eq m0 by linarith
    then have "(of_int (3 * q) :: rat) \<le> of_int n" by (simp only: of_int_le_iff)
    then show ?thesis by (simp add: x_def)
  qed
  have xq_hi: "x \<le> of_int q + 2 / 3"
  proof -
    have "n \<le> 3 * q + 2" using n_eq m2 by linarith
    then have "(of_int n :: rat) \<le> of_int (3 * q + 2)" by (simp only: of_int_le_iff)
    then show ?thesis by (simp add: x_def)
  qed
  have Kpos: "(0::rat) < of_int K" using K2 by simp
  have lo: "q * K \<le> R"
  proof -
    have "of_int (q * K) \<le> x * of_int K"
      using xq_lo Kpos by (simp add: mult_right_mono)
    then have "q * K \<le> \<lfloor>x * of_int K\<rfloor>" by (simp add: le_floor_iff)
    then show ?thesis using round_half_even_ge_floor[of "x * of_int K"] by (simp add: R_def)
  qed
  have hi: "R < (q + 1) * K"
  proof -
    have "x * of_int K \<le> (of_int q + 2 / 3) * of_int K"
      using xq_hi Kpos by (simp add: mult_right_mono)
    also have "\<dots> = of_int ((q + 1) * K) - of_int K / 3" by (simp add: algebra_simps)
    also have "\<dots> < of_int ((q + 1) * K) - 1 / 2"
    proof -
      have "(of_int 2 :: rat) \<le> of_int K" using K2 by (simp only: of_int_le_iff)
      then show ?thesis by simp
    qed
    finally show ?thesis unfolding R_def by (rule round_half_even_less)
  qed
  have q0: "0 \<le> q" using n0 by (simp add: q_def pos_imp_zdiv_nonneg_iff)
  have R0: "0 \<le> R"
  proof -
    have "0 \<le> q * K" using q0 K2 by simp
    then show ?thesis using lo by linarith
  qed
  have "py_int (of_int R / of_int K) = \<lfloor>(of_int R :: rat) / of_int K\<rfloor>"
    using R0 Kpos by (simp add: py_int_def)
  also have "\<dots> = R div K" by (simp add: floor_divide_of_int_eq)
  also have "\<dots> = q"
  proof -
    define r where "r = R - q * K"
    have r0: "0 \<le> r" and rK: "r < K" using lo hi by (simp_all add: r_def algebra_simps)
    have "R div K = (q * K + r) div K" by (simp add: r_def)
    also have "\<dots> = q + r div K" using K2 by simp
    also have "r div K = 0" using r0 rK by (rule div_pos_pos_trivial)
    finally show ?thesis by simp
  qed
  finally show ?thesis by (simp add: int_truediv_def x_def[symmetric] rb q_def)
qed

text \<open>
  Rounding never crosses an integer below \<open>2 ^ 53\<close>: a value between two such integers is
  rounded to a float between them.
\<close>

lemma round_half_even_le:
  assumes "y \<le> of_int M" shows "round_half_even y \<le> M"
proof -
  have f: "\<lfloor>y\<rfloor> \<le> M" using assms by (simp add: floor_le_iff)
  show ?thesis
  proof (cases "\<lfloor>y\<rfloor> = M")
    case True
    then have "of_int M \<le> y" by (metis of_int_floor_le)
    then have "y = of_int M" using assms by simp
    then show ?thesis by (simp add: round_half_even_def)
  next
    case False
    then have "\<lfloor>y\<rfloor> + 1 \<le> M" using f by simp
    then show ?thesis using f by (simp add: round_half_even_def Let_def)
  qed
qed

lemma round_binary64_between:
  assumes lo: "of_int lo \<le> x" and hi: "x \<le> of_int hi" and lo0: "0 \<le> lo" and hib: "hi < 2 ^ 53"
  shows "of_int lo \<le> round_binary64 x \<and> round_binary64 x \<le> of_int hi"
proof (cases "x = 0")
  case True
  then show ?thesis using lo hi by (simp add: round_binary64_def)
next
  case False
  have xpos: "0 < x"
  proof -
    have "(0::rat) \<le> of_int lo" using lo0 by simp
    then show ?thesis using lo False by linarith
  qed
  define e where "e = max (floor_log2 x) (- 1022)"
  have e52: "e \<le> 52"
  proof (rule ccontr)
    assume "\<not> e \<le> 52"
    then have "53 \<le> floor_log2 x" by (simp add: e_def)
    then have "(2::rat) powi 53 \<le> 2 powi (floor_log2 x)"
      by (intro power_int_increasing) simp_all
    also have "\<dots> \<le> x" by (rule floor_log2_le[OF xpos])
    also have "\<dots> \<le> of_int hi" by (rule hi)
    also have "\<dots> < of_int (2 ^ 53)" using hib by (simp only: of_int_less_iff)
    finally show False by (simp add: power_int_def)
  qed
  define K :: int where "K = 2 ^ nat (52 - e)"
  have Kpos: "0 < K" by (simp add: K_def)
  have KR: "(0::rat) < of_int K" using Kpos by simp
  have ulp: "(2::rat) powi (e - 52) = 1 / of_int K"
    using e52 by (simp add: power_int_def K_def field_simps)
  define R where "R = round_half_even (x * of_int K)"
  have rb: "round_binary64 x = of_int R / of_int K"
    using xpos ulp by (simp add: round_binary64_def e_def[symmetric] Let_def R_def)
  have 1: "lo * K \<le> R"
  proof -
    have "of_int (lo * K) \<le> x * of_int K" using lo KR by (simp add: mult_right_mono)
    then have "lo * K \<le> \<lfloor>x * of_int K\<rfloor>" by (simp add: le_floor_iff)
    then show ?thesis using round_half_even_ge_floor[of "x * of_int K"] by (simp add: R_def)
  qed
  have 2: "R \<le> hi * K"
  proof -
    have "x * of_int K \<le> of_int (hi * K)" using hi KR by (simp add: mult_right_mono)
    then show ?thesis unfolding R_def by (rule round_half_even_le)
  qed
  have "(of_int (lo * K) :: rat) \<le> of_int R" "(of_int R :: rat) \<le> of_int (hi * K)"
    using 1 2 by (simp_all only: of_int_le_iff)
  then show ?thesis using KR by (simp add: rb field_simps)
qed

lemma float_of_int_exact:
  assumes "0 \<le> i" "i < 2 ^ 53" shows "float_of_int i = of_int i"
  using round_binary64_between[of i "of_int i" i] assms by (simp add: float_of_int_def)

section \<open>Paths and the files of a bundle\<close>

lemma path_join_last:
  assumes "b \<noteq> []" shows "path_join a b \<noteq> [] \<and> last (path_join a b) = last b"
  using assms by (simp add: path_join_def)

lemma imageset_dir_last: "imageset_dir E name \<noteq> [] \<and> last (imageset_dir E name) = CHR ''t''"
  using path_join_last[of "name @ ''.imageset''" "ASSETS_DIR E"] by (simp add: imageset_dir_def)

lemma path_join_plain:
  assumes "a \<noteq> []" "last a \<noteq> CHR ''/''" "b = [] \<or> hd b \<noteq> CHR ''/''"
  shows "path_join a b = a @ ''/'' @ b"
  using assms by (auto simp: path_join_def)

lemma dirname_plain:
  assumes "d \<noteq> []" "last d \<noteq> CHR ''/''" "CHR ''/'' \<notin> set f"
  shows "dirname (d @ ''/'' @ f) = d"
proof -
  have 1: "dropWhile (\<lambda>c. c \<noteq> CHR ''/'') (rev f @ CHR ''/'' # rev d) = CHR ''/'' # rev d"
    using assms(3) by (simp add: dropWhile_append)
  have 2: "hd (rev d) \<noteq> CHR ''/''" using assms(1,2) by (simp add: hd_rev)
  have 3: "dropWhile (\<lambda>c. c = CHR ''/'') (rev d) = rev d"
    using 2 assms(1) by (cases "rev d") auto
  have 4: "\<exists>c\<in>set d. c \<noteq> CHR ''/''" using assms(1,2) last_in_set by blast
  show ?thesis using 1 3 4 assms(1) by (auto simp: dirname_def Let_def)
qed

lemma file_in_imageset:
  assumes "CHR ''/'' \<notin> set f"
  shows "path_join (imageset_dir E name) f = imageset_dir E name @ ''/'' @ f"
    and "dirname (path_join (imageset_dir E name) f) = imageset_dir E name"
proof -
  have d: "imageset_dir E name \<noteq> []" "last (imageset_dir E name) \<noteq> CHR ''/''"
    using imageset_dir_last[of E name] by simp_all
  have f: "f = [] \<or> hd f \<noteq> CHR ''/''" using assms by (cases f) auto
  show j: "path_join (imageset_dir E name) f = imageset_dir E name @ ''/'' @ f"
    by (rule path_join_plain[OF d f])
  show "dirname (path_join (imageset_dir E name) f) = imageset_dir E name"
    unfolding j by (rule dirname_plain[OF d assms])
qed

lemma path_join_inject:
  assumes "a \<noteq> b" "(a \<noteq> [] \<and> hd a = CHR ''/'') = (b \<noteq> [] \<and> hd b = CHR ''/'')"
  shows "path_join d a \<noteq> path_join d b"
  using assms by (auto simp: path_join_def)

lemma at3x_at2x_paths_differ:
  "path_join d (name @ ''@3x.png'') \<noteq> path_join d (name @ ''@2x.png'')"
  by (rule path_join_inject) (cases name; simp)+

lemma bundle_paths_distinct:
  assumes "CHR ''/'' \<notin> set name"
  shows "path_join (imageset_dir E name) (name @ ''@3x.png'') \<noteq> path_join (imageset_dir E name) (name @ ''@2x.png'')"
    and "path_join (imageset_dir E name) ''Contents.json'' \<noteq> path_join (imageset_dir E name) (name @ ''@2x.png'')"
    and "path_join (imageset_dir E name) ''Contents.json'' \<noteq> path_join (imageset_dir E name) (name @ ''@3x.png'')"
proof -
  have a: "path_join (imageset_dir E name) (name @ ''@3x.png'') = imageset_dir E name @ ''/'' @ name @ ''@3x.png''"
    using file_in_imageset(1)[of "name @ ''@3x.png''" E name] assms by simp
  have b: "path_join (imageset_dir E name) (name @ ''@2x.png'') = imageset_dir E name @ ''/'' @ name @ ''@2x.png''"
    using file_in_imageset(1)[of "name @ ''@2x.png''" E name] assms by simp
  have c: "path_join (imageset_dir E name) ''Contents.json'' = imageset_dir E name @ ''/'' @ ''Contents.json''"
    using file_in_imageset(1)[of "''Contents.json''" E name] by simp
  show "path_join (imageset_dir E name) (name @ ''@3x.png'') \<noteq> path_join (imageset_dir E name) (name @ ''@2x.png'')"
    unfolding a b by simp
  have l: "last (name @ ''@2x.png'') = CHR ''g''" "last (name @ ''@3x.png'') = CHR ''g''" by simp_all
  show "path_join (imageset_dir E name) ''Contents.json'' \<noteq> path_join (imageset_dir E name) (name @ ''@2x.png'')"
  proof
    assume "path_join (imageset_dir E name) ''Contents.json'' = path_join (imageset_dir E name) (name @ ''@2x.png'')"
    then have "last (''Contents.json'') = last (name @ ''@2x.png'')" unfolding b c by simp
    then show False by simp
  qed
  show "path_join (imageset_dir E name) ''Contents.json'' \<noteq> path_join (imageset_dir E name) (name @ ''@3x.png'')"
  proof
    assume "path_join (imageset_dir E name) ''Contents.json'' = path_join (imageset_dir E name) (name @ ''@3x.png'')"
    then have "last (''Contents.json'') = last (name @ ''@3x.png'')" unfolding b c a by simp
    then show False by simp
  qed
qed

lemma ensure_imageset_ok:
  "ensure_imageset E name W =
     Inr (imageset_dir E name,
          W\<lparr>dirs := dirs W \<union> set (parent_dirs (imageset_dir E name)) \<union> {imageset_dir E name},
            files := (files W)(path_join (imageset_dir E name) ''Contents.json'' \<mapsto> Json (contents_json name))\<rparr>)"
proof -
  have "dirname (path_join (imageset_dir E name) ''Contents.json'') = imageset_dir E name"
    by (rule file_in_imageset) simp
  then show ?thesis
    by (simp add: ensure_imageset_def imageset_dir_def[symmetric] Let_def makedirs_def write_file_def)
qed

lemma save_asset_ok:
  assumes "CHR ''/'' \<notin> set name"
  shows "save_asset E img name W =
     Inr (W\<lparr>dirs := dirs W \<union> set (parent_dirs (imageset_dir E name)) \<union> {imageset_dir E name},
            files := (files W)
              (path_join (imageset_dir E name) ''Contents.json'' \<mapsto> Json (contents_json name),
               path_join (imageset_dir E name) (name @ ''@3x.png'') \<mapsto> Png img,
               path_join (imageset_dir E name) (name @ ''@2x.png'') \<mapsto>
                 Png (Resized img (at2x_size img) LANCZOS))\<rparr>)"
proof -
  have 3: "dirname (path_join (imageset_dir E name) (name @ ''@3x.png'')) = imageset_dir E name"
    by (rule file_in_imageset) (use assms in simp)
  have 2: "dirname (path_join (imageset_dir E name) (name @ ''@2x.png'')) = imageset_dir E name"
    by (rule file_in_imageset) (use assms in simp)
  show ?thesis
    by (simp add: save_asset_def ensure_imageset_ok write_file_def 2 3 Let_def at2x_size_def)
qed

lemma draw_and_save_ok:
  assumes "draw_func (rng W) (w3x * 4) (h3x * 4) 4 = Inr (cmds, g')" "CHR ''/'' \<notin> set name"
  shows "\<exists>W'. draw_and_save E w3x h3x draw_func name W = Inr W'"
  using assms by (simp add: draw_and_save_def supersample_draw_def SUPERSAMPLE_def save_asset_ok)


section \<open>Outlined text\<close>

lemma set_py_range3_1: "set (py_range3 a b 1) = {a ..< b}"
proof -
  have "(\<lambda>k. a + int k) ` {0 ..< nat (b - a)} = {a ..< b}"
  proof (intro set_eqI iffI)
    fix x assume "x \<in> (\<lambda>k. a + int k) ` {0 ..< nat (b - a)}"
    then show "x \<in> {a ..< b}" by auto
  next
    fix x assume x: "x \<in> {a ..< b}"
    then have "x = a + int (nat (x - a))" "nat (x - a) \<in> {0 ..< nat (b - a)}" by auto
    then show "x \<in> (\<lambda>k. a + int k) ` {0 ..< nat (b - a)}" by (rule image_eqI)
  qed
  then show ?thesis by (simp add: py_range3_def)
qed

lemma distinct_py_range3_1: "distinct (py_range3 a b 1)"
  by (simp add: py_range3_def distinct_map inj_on_def)

lemma concat_filter_product:
  "concat (map (\<lambda>x. map (\<lambda>y. (x, y)) (filter (Q x) ys)) xs) =
   filter (\<lambda>(x, y). Q x y) (List.product xs ys)"
  by (induction xs) (simp_all add: filter_map comp_def)

lemma halo_offsets_product:
  "halo_offsets ow =
     filter (\<lambda>(dx, dy). dx * dx + dy * dy \<le> ow * ow + 1)
            (List.product (py_range3 (- ow) (ow + 1) 1) (py_range3 (- ow) (ow + 1) 1))"
  unfolding halo_offsets_def by (rule concat_filter_product)

lemma set_halo_offsets:
  "set (halo_offsets ow) =
     {(dx, dy). - ow \<le> dx \<and> dx \<le> ow \<and> - ow \<le> dy \<and> dy \<le> ow \<and> dx * dx + dy * dy \<le> ow * ow + 1}"
  by (auto simp: halo_offsets_product set_py_range3_1)

lemma distinct_halo_offsets: "distinct (halo_offsets ow)"
  by (simp add: halo_offsets_product distinct_product distinct_py_range3_1)

lemma resolve_font_demo: "resolve_font demo_env sz = Inr DefaultFont"
  by (simp add: resolve_font_def demo_env_def)

lemma halo_offsets_1:
  "halo_offsets 1 = [(- 1, - 1), (- 1, 0), (- 1, 1), (0, - 1), (0, 0), (0, 1), (1, - 1), (1, 0), (1, 1)]"
  by (simp add: halo_offsets_def py_range3_def upt_rec)

section \<open>Colours\<close>

lemma colors_ok_append [simp]: "colors_ok (xs @ ys) = (colors_ok xs \<and> colors_ok ys)"
  by (simp add: colors_ok_def)

lemma colors_ok_Nil [simp]: "colors_ok []"
  by (simp add: colors_ok_def)

lemma colors_ok_Cons [simp]: "colors_ok (c # cs) = (cmd_colors_ok c \<and> colors_ok cs)"
  by (simp add: colors_ok_def)

lemma for_loop_colors_ok:
  assumes "\<And>x g. colors_ok (fst (body x g))"
  shows "colors_ok (fst (for_loop xs body g))"
proof (induction xs arbitrary: g)
  case Nil
  show ?case by simp
next
  case (Cons x xs)
  obtain cs g1 where b: "body x g = (cs, g1)" by (cases "body x g")
  obtain rest g2 where r: "for_loop xs body g1 = (rest, g2)" by (cases "for_loop xs body g1")
  have "colors_ok cs" using assms[of x g] b by simp
  moreover have "colors_ok rest" using Cons.IH[of g1] r by simp
  ultimately show ?case using b r by simp
qed

lemma randint_bounds:
  assumes "randint_in_bounds E" "a \<le> b" "random_randint E a b g = (v, g')"
  shows "a \<le> v" "v \<le> b"
  using assms unfolding randint_in_bounds_def by (metis fst_conv)+

lemma randint_20:
  assumes "randint_in_bounds E" "random_randint E (- 20) 20 g = (v, g')"
  shows "- 20 \<le> v \<and> v \<le> 20"
  using randint_bounds[OF assms(1) _ assms(2)] by simp

lemma background_blade_colors_ok:
  assumes "randint_in_bounds E"
  shows "colors_ok (fst (background_blade E w h s g))"
  unfolding background_blade_def
  by (auto simp: channel_ok_def split: prod.splits dest: randint_20[OF assms])

lemma edge_speck_colors_ok:
  assumes "randint_in_bounds E"
  shows "colors_ok (fst (edge_speck E w h s g))"
  unfolding edge_speck_def
  by (auto simp: channel_ok_def split: prod.splits dest: randint_20[OF assms])

lemma edge_grass_colors_ok: "colors_ok (fst (edge_grass E s x g))"
  by (simp add: edge_grass_def channel_ok_def split: prod.splits)

lemma text_stamps_colors_ok:
  assumes "color_ok c"
  shows "colors_ok (map (\<lambda>(dx, dy). Text (x + dx, y + dy) t f (Some c) an) offs)"
  using assms by (induction offs) auto

lemma draw_text_outlined_colors_ok:
  assumes "draw_text_outlined E pos t sz fill oc ow s = Inr (cmds, f)" "color_ok fill" "color_ok oc"
  shows "colors_ok cmds"
  using assms
  by (cases pos) (auto simp: draw_text_outlined_def text_stamps_colors_ok split: sum.splits)

lemma py_range_4: "py_range 4 = [0, 1, 2, 3]"
  by (simp add: py_range_def py_range3_def upt_rec)

lemma gradient_channel_bounds:
  assumes y: "0 \<le> y" "y < h" and c: "0 \<le> c0" "0 \<le> dc" "c0 + dc \<le> 255"
  shows "c0 \<le> gradient_channel c0 dc (int_truediv y h) \<and>
         gradient_channel c0 dc (int_truediv y h) \<le> c0 + dc"
proof -
  define t where "t = int_truediv y h"
  have hpos: "(0::rat) < of_int h" using y by simp
  have t: "0 \<le> t" "t \<le> 1"
  proof -
    have "(of_int y :: rat) / of_int h \<le> 1" "(0::rat) \<le> of_int y / of_int h"
      using y hpos by simp_all
    then show "0 \<le> t" "t \<le> 1"
      using round_binary64_between[of 0 "of_int y / of_int h" 1]
      by (simp_all add: t_def int_truediv_def)
  qed
  have fdc: "float_of_int dc = of_int dc" and fc0: "float_of_int c0 = of_int c0"
    using c by (simp_all add: float_of_int_exact)
  define u where "u = fmul t (float_of_int dc)"
  have u: "0 \<le> u" "u \<le> of_int dc"
  proof -
    have "0 \<le> t * of_int dc" "t * of_int dc \<le> of_int dc"
      using t c by (simp_all add: mult_left_le_one_le)
    then show "0 \<le> u" "u \<le> of_int dc"
      using round_binary64_between[of 0 "t * of_int dc" dc] c
      by (simp_all add: u_def fmul_def fdc)
  qed
  define v where "v = fadd (float_of_int c0) u"
  have v: "of_int c0 \<le> v" "v \<le> of_int (c0 + dc)"
    using round_binary64_between[of c0 "of_int c0 + u" "c0 + dc"] u c
    by (simp_all add: v_def fadd_def fc0)
  have v0: "0 \<le> v"
  proof -
    have "(0::rat) \<le> of_int c0" using c by simp
    then show ?thesis using v(1) by linarith
  qed
  have "py_int v = \<lfloor>v\<rfloor>" using v0 by (simp add: py_int_def)
  moreover have "c0 \<le> \<lfloor>v\<rfloor>" using v(1) by (simp add: le_floor_iff)
  moreover have "\<lfloor>v\<rfloor> \<le> c0 + dc" using v(2) by (simp add: floor_le_iff)
  ultimately show ?thesis by (simp add: gradient_channel_def t_def u_def v_def)
qed

lemma gradient_colors_ok:
  assumes "0 \<le> fst rr" "0 \<le> snd rr" "fst rr + snd rr \<le> 255"
    and "0 \<le> fst gg" "0 \<le> snd gg" "fst gg + snd gg \<le> 255"
    and "0 \<le> fst bb" "0 \<le> snd bb" "fst bb + snd bb \<le> 255"
  shows "colors_ok (gradient rr gg bb w h)"
proof -
  have "cmd_colors_ok (let t = int_truediv y h
              in Line [(0, y), (w, y)]
                      (Some (RGB (gradient_channel (fst rr) (snd rr) t)
                                 (gradient_channel (fst gg) (snd gg) t)
                                 (gradient_channel (fst bb) (snd bb) t))) 0)"
    if "y \<in> set (py_range h)" for y
  proof -
    have y: "0 \<le> y" "y < h" using that by (simp_all add: py_range_def set_py_range3_1)
    show ?thesis
      using gradient_channel_bounds[OF y assms(1,2,3)] gradient_channel_bounds[OF y assms(4,5,6)]
        gradient_channel_bounds[OF y assms(7,8,9)] assms
      by (simp add: Let_def channel_ok_def)
  qed
  then show ?thesis
    by (simp add: gradient_def colors_ok_def list_all_iff)
qed

section \<open>Ditch water\<close>

lemma py_str_digits: "py_str 1 = ''1''" "py_str 2 = ''2''" "py_str 3 = ''3''"
  by (simp_all add: py_str_def decimal.simps)

lemma py_range3_1_4: "py_range3 1 4 1 = [1, 2, 3]"
  by (simp add: py_range3_def upt_rec)

lemma length_gradient: "length (gradient rr gg bb w h) = nat h"
  by (simp add: gradient_def py_range_def py_range3_def)

lemma ditch_wave_row_drawn:
  assumes "0 < s" "4 * s < w"
  shows "ditch_wave_row E w s phase y =
           [Line (ditch_wave_points E w s phase y) (Some (RGBA 80 140 220 100)) (2 * s)]"
proof -
  have "2 \<le> (w + 4 * s - 1) div (4 * s)"
  proof -
    have "2 * (4 * s) \<le> w + 4 * s - 1" using assms by simp
    then have "2 * (4 * s) div (4 * s) \<le> (w + 4 * s - 1) div (4 * s)" by (rule zdiv_mono1) (use assms in simp)
    then show ?thesis using assms by simp
  qed
  then have "1 < length (ditch_wave_points E w s phase y)"
    using assms by (simp add: ditch_wave_points_def py_range3_def)
  then show ?thesis by (simp add: ditch_wave_row_def Let_def)
qed

lemma div_le_one:
  assumes "0 < (b::int)" "a < 2 * b"
  shows "a div b \<le> 1"
proof -
  define c where "c = b - 1"
  have c: "0 \<le> c" "c < b" "a \<le> b + c" using assms by (simp_all add: c_def)
  have "a div b \<le> (b + c) div b" using c(3) assms(1) by (rule zdiv_mono1)
  also have "\<dots> = c div b + 1" using assms(1) by (simp only: div_add_self1)
  also have "c div b = 0" using c(1,2) by (rule div_pos_pos_trivial)
  finally show ?thesis by simp
qed

lemma ditch_wave_row_skipped:
  assumes "0 < s" "w \<le> 4 * s"
  shows "ditch_wave_row E w s phase y = []"
proof -
  have "(w + 4 * s - 1) div (4 * s) \<le> 1"
    by (rule div_le_one) (use assms in simp_all)
  then have "length (ditch_wave_points E w s phase y) \<le> 1"
    using assms by (simp add: ditch_wave_points_def py_range3_def)
  then show ?thesis by (simp add: ditch_wave_row_def Let_def)
qed

lemma length_ditch_waves:
  assumes "0 < s" "4 * s < w"
  shows "length (ditch_waves E w h s phase) = length (py_range3 0 h (12 * s))"
  by (simp add: ditch_waves_def ditch_wave_row_drawn[OF assms] length_concat comp_def sum_list_triv)

section \<open>Runs that return\<close>

lemma heart_returns:
  "\<exists>cmds. heart_draw_fn color alpha g w h s = Inr (cmds, g)"
  by (cases color) (simp add: heart_draw_fn_def Let_def)

lemma draw_cow_returns: "\<exists>cmds g'. draw_cow E variant g w h s = Inr (cmds, g')"
  unfolding draw_cow_def Let_def by (simp split: prod.split)

lemma button_returns_demo: "\<exists>cmds. button_draw_fn demo_env text color g w h s = Inr (cmds, g)"
  by (cases color) (simp add: button_draw_fn_def draw_text_outlined_def resolve_font_demo Let_def)

lemma demo_randint_in_bounds: "randint_in_bounds demo_env"
proof -
  have "a \<le> a + g mod (b - a + 1) \<and> a + g mod (b - a + 1) \<le> b" if "a \<le> b" for a b g :: int
  proof -
    have "0 < b - a + 1" using that by simp
    then have "0 \<le> g mod (b - a + 1)" "g mod (b - a + 1) < b - a + 1"
      by (rule pos_mod_sign, rule pos_mod_bound)
    then show ?thesis by linarith
  qed
  then show ?thesis by (simp add: randint_in_bounds_def demo_env_def)
qed

lemma for_loop_first:
  assumes "body x g = ([c], g1)"
  shows "fst (for_loop (x # xs) body g) ! 0 = c"
  using assms by (simp split: prod.splits)

lemma py_range_20: "py_range 20 = 0 # map int [1 ..< 20]"
  by (simp add: py_range_def py_range3_def upt_rec[of 0] map_upt_Suc del: upt_Suc)

lemma ditch_water_first_shimmer:
  assumes "ditch_shimmer E 2048 640 4 (random_seed E (frame * 100)) = ([c], g1)"
  shows "issued (ditch_water_draw_fn E frame g 2048 640 4) ! 654 = c"
proof -
  obtain shimmer g' where l:
    "for_loop (py_range 20) (\<lambda>_. ditch_shimmer E 2048 640 4) (random_seed E (frame * 100)) = (shimmer, g')"
    by (cases "for_loop (py_range 20) (\<lambda>_. ditch_shimmer E 2048 640 4) (random_seed E (frame * 100))")
  have s0: "shimmer ! 0 = c"
    using for_loop_first[of "\<lambda>_. ditch_shimmer E 2048 640 4" 0 "random_seed E (frame * 100)" c g1
        "map int [1 ..< 20]"] assms l
    by (simp add: py_range_20)
  have lw: "length (ditch_waves E 2048 640 4 phase) = 14" for phase
    by (simp add: length_ditch_waves py_range3_def)
  have lg: "length (gradient (30, 20) (60, 40) (140, 40) 2048 640) = 640"
    by (simp add: length_gradient)
  show ?thesis
    using l s0 by (simp add: issued_def ditch_water_draw_fn_def Let_def nth_append lw lg)
qed

section \<open>Determinism\<close>

lemma save_asset_deterministic:
  assumes "CHR ''/'' \<notin> set name"
  shows "\<exists>W'. save_asset E img name W = Inr W' \<and>
           dirs W' = dirs W \<union> (set (parent_dirs (imageset_dir E name)) \<union> {imageset_dir E name}) \<and>
           files W' = files W ++
             [path_join (imageset_dir E name) ''Contents.json'' \<mapsto> Json (contents_json name),
              path_join (imageset_dir E name) (name @ ''@3x.png'') \<mapsto> Png img,
              path_join (imageset_dir E name) (name @ ''@2x.png'') \<mapsto>
                 Png (Resized img (at2x_size img) LANCZOS)]"
  by (simp add: save_asset_ok[OF assms] Un_assoc)

lemma draw_and_save_deterministic:
  assumes ind: "\<And>g1 g2. map_sum id fst (df g1 (w * 4) (h * 4) 4) = map_sum id fst (df g2 (w * 4) (h * 4) 4)"
    and name: "CHR ''/'' \<notin> set name"
  shows "deterministic (draw_and_save E w h df name)"
proof (cases "df undefined (w * 4) (h * 4) 4")
  case (Inl e)
  have "draw_and_save E w h df name W = Inl e" for W
  proof -
    have "map_sum id fst (df (rng W) (w * 4) (h * 4) 4) = Inl e"
      using ind[of "rng W" undefined] Inl by simp
    then have "df (rng W) (w * 4) (h * 4) 4 = Inl e"
      by (cases "df (rng W) (w * 4) (h * 4) 4") simp_all
    then show ?thesis by (simp add: draw_and_save_def supersample_draw_def SUPERSAMPLE_def)
  qed
  then show ?thesis unfolding deterministic_def by blast
next
  case (Inr r)
  obtain cmds g0 where r: "r = (cmds, g0)" by (cases r)
  let ?img = "Resized (Drawn (New ''RGBA'' (w * 4, h * 4) (RGBA 0 0 0 0)) cmds) (w, h) LANCZOS"
  let ?D = "set (parent_dirs (imageset_dir E name)) \<union> {imageset_dir E name}"
  let ?F = "[path_join (imageset_dir E name) ''Contents.json'' \<mapsto> Json (contents_json name),
              path_join (imageset_dir E name) (name @ ''@3x.png'') \<mapsto> Png ?img,
              path_join (imageset_dir E name) (name @ ''@2x.png'') \<mapsto>
                 Png (Resized ?img (at2x_size ?img) LANCZOS)]"
  have "\<exists>W'. draw_and_save E w h df name W = Inr W' \<and> dirs W' = dirs W \<union> ?D \<and> files W' = files W ++ ?F" for W
  proof -
    have "map_sum id fst (df (rng W) (w * 4) (h * 4) 4) = Inr cmds"
      using ind[of "rng W" undefined] Inr r by simp
    then obtain g1 where "df (rng W) (w * 4) (h * 4) 4 = Inr (cmds, g1)"
      by (cases "df (rng W) (w * 4) (h * 4) 4") auto
    then have "draw_and_save E w h df name W = save_asset E ?img name (W\<lparr>rng := g1\<rparr>)"
      by (simp add: draw_and_save_def supersample_draw_def SUPERSAMPLE_def)
    then show ?thesis
      using save_asset_deterministic[OF name, of E ?img "W\<lparr>rng := g1\<rparr>"] by simp
  qed
  then show ?thesis unfolding deterministic_def by blast
qed

lemma run_all_deterministic:
  assumes "list_all deterministic fs"
  shows "deterministic (run_all fs)"
  using assms
proof (induction fs)
  case Nil
  have "\<forall>W :: 'a world. \<exists>W'. run_all [] W = Inr W' \<and> dirs W' = dirs W \<union> {} \<and> files W' = files W ++ Map.empty"
    by simp
  then show ?case unfolding deterministic_def by blast
next
  case (Cons f fs)
  then have f: "deterministic f" and fs: "deterministic (run_all fs)" by simp_all
  from f show ?case
    unfolding deterministic_def[of f]
  proof (elim disjE exE)
    fix e assume "\<forall>W. f W = Inl e"
    then have "\<forall>W. run_all (f # fs) W = Inl e" by simp
    then show ?thesis unfolding deterministic_def by blast
  next
    fix D F assume a: "\<forall>W. \<exists>W'. f W = Inr W' \<and> dirs W' = dirs W \<union> D \<and> files W' = files W ++ F"
    from fs show ?thesis
      unfolding deterministic_def[of "run_all fs"]
    proof (elim disjE exE)
      fix e assume b: "\<forall>W. run_all fs W = Inl e"
      have "run_all (f # fs) W = Inl e" for W
      proof -
        obtain W' where "f W = Inr W'" using a by blast
        then show ?thesis using b by simp
      qed
      then show ?thesis unfolding deterministic_def by blast
    next
      fix D2 F2
      assume b: "\<forall>W. \<exists>W'. run_all fs W = Inr W' \<and> dirs W' = dirs W \<union> D2 \<and> files W' = files W ++ F2"
      have "\<exists>W''. run_all (f # fs) W = Inr W'' \<and> dirs W'' = dirs W \<union> (D \<union> D2) \<and>
                  files W'' = files W ++ (F ++ F2)" for W
      proof -
        obtain W' where 1: "f W = Inr W'" "dirs W' = dirs W \<union> D" "files W' = files W ++ F"
          using a by blast
        obtain W'' where 2: "run_all fs W' = Inr W''" "dirs W'' = dirs W' \<union> D2" "files W'' = files W' ++ F2"
          using b by blast
        show ?thesis using 1 2 by (simp add: Un_assoc)
      qed
      then show ?thesis unfolding deterministic_def by blast
    qed
  qed
qed

lemma draw_cow_reseeds: "draw_cow E variant g1 w h s = draw_cow E variant g2 w h s"
  unfolding draw_cow_def by (rule refl)

lemma cow_drowning_reseeds: "cow_drowning_draw_fn E g1 w h s = cow_drowning_draw_fn E g2 w h s"
  unfolding cow_drowning_draw_fn_def by (rule refl)

lemma background_grass_reseeds: "background_grass_draw_fn E g1 w h s = background_grass_draw_fn E g2 w h s"
  unfolding background_grass_draw_fn_def by (rule refl)

lemma safe_pasture_reseeds: "safe_pasture_draw_fn E g1 w h s = safe_pasture_draw_fn E g2 w h s"
  unfolding safe_pasture_draw_fn_def by (rule refl)

lemma ditch_water_reseeds: "ditch_water_draw_fn E frame g1 w h s = ditch_water_draw_fn E frame g2 w h s"
  unfolding ditch_water_draw_fn_def by (rule refl)

lemma ditch_edge_reseeds: "ditch_edge_draw_fn E g1 w h s = ditch_edge_draw_fn E g2 w h s"
  unfolding ditch_edge_draw_fn_def by (rule refl)

lemma fence_post_reseeds: "fence_post_draw_fn E g1 w h s = fence_post_draw_fn E g2 w h s"
  unfolding fence_post_draw_fn_def by (rule refl)

lemma fence_rail_reseeds: "fence_rail_draw_fn E g1 w h s = fence_rail_draw_fn E g2 w h s"
  unfolding fence_rail_draw_fn_def by (rule refl)

lemma gate_post_reseeds: "gate_post_draw_fn E g1 w h s = gate_post_draw_fn E g2 w h s"
  unfolding gate_post_draw_fn_def by (rule refl)

lemma clouds_reseeds: "clouds_draw_fn E v g1 w h s = clouds_draw_fn E v g2 w h s"
  unfolding clouds_draw_fn_def by (rule refl)

lemma farmer_no_random: "map_sum id fst (farmer_draw_fn g1 w h s) = map_sum id fst (farmer_draw_fn g2 w h s)"
  unfolding farmer_draw_fn_def Let_def by simp

lemma gate_door_no_random: "map_sum id fst (gate_door_draw_fn g1 w h s) = map_sum id fst (gate_door_draw_fn g2 w h s)"
  unfolding gate_door_draw_fn_def Let_def by simp

lemma heart_no_random:
  "map_sum id fst (heart_draw_fn c a g1 w h s) = map_sum id fst (heart_draw_fn c a g2 w h s)"
  unfolding heart_draw_fn_def Let_def by (cases c) simp

lemma score_badge_no_random:
  "map_sum id fst (score_badge_draw_fn g1 w h s) = map_sum id fst (score_badge_draw_fn g2 w h s)"
  by (simp add: score_badge_draw_fn_def)

lemma gate_indicator_no_random:
  "map_sum id fst (gate_indicator_draw_fn c g1 w h s) = map_sum id fst (gate_indicator_draw_fn c g2 w h s)"
  unfolding gate_indicator_draw_fn_def by (cases c) simp

lemma title_logo_no_random:
  "map_sum id fst (title_logo_draw_fn E g1 w h s) = map_sum id fst (title_logo_draw_fn E g2 w h s)"
  unfolding title_logo_draw_fn_def Let_def by (simp split: sum.split prod.split)

lemma button_no_random:
  "map_sum id fst (button_draw_fn E t c g1 w h s) = map_sum id fst (button_draw_fn E t c g2 w h s)"
  unfolding button_draw_fn_def Let_def by (cases c) (simp split: sum.split prod.split)

lemma game_over_no_random:
  "map_sum id fst (game_over_banner_draw_fn E g1 w h s) = map_sum id fst (game_over_banner_draw_fn E g2 w h s)"
  unfolding game_over_banner_draw_fn_def Let_def by (simp split: sum.split prod.split)

lemma reseeding_deterministic:
  assumes "\<And>g1 g2. df g1 (w * 4) (h * 4) 4 = df g2 (w * 4) (h * 4) 4" "CHR ''/'' \<notin> set name"
  shows "deterministic (draw_and_save E w h df name)"
  by (rule draw_and_save_deterministic) (rule arg_cong[OF assms(1)], rule assms(2))

lemma generate_particle_deterministic:
  assumes "CHR ''/'' \<notin> set name"
  shows "deterministic (generate_particle E name size_px df)"
  unfolding generate_particle_def by (rule draw_and_save_deterministic) (simp_all add: assms)

lemma cow_walk_deterministic: "deterministic (generate_cow_walk E)"
  unfolding generate_cow_walk_def
  by (rule run_all_deterministic)
     (simp add: py_str_digits reseeding_deterministic[OF draw_cow_reseeds])

lemma cow_drowning_deterministic: "deterministic (generate_cow_drowning E)"
  unfolding generate_cow_drowning_def by (rule reseeding_deterministic, rule cow_drowning_reseeds) simp

lemma farmer_deterministic: "deterministic (generate_farmer E)"
  unfolding generate_farmer_def by (rule draw_and_save_deterministic, rule farmer_no_random) simp

lemma background_grass_deterministic: "deterministic (generate_background_grass E)"
  unfolding generate_background_grass_def
  by (rule reseeding_deterministic, rule background_grass_reseeds) simp

lemma safe_pasture_deterministic: "deterministic (generate_safe_pasture E)"
  unfolding generate_safe_pasture_def by (rule reseeding_deterministic, rule safe_pasture_reseeds) simp

lemma ditch_water_deterministic: "deterministic (generate_ditch_water E)"
  unfolding generate_ditch_water_def
  by (rule run_all_deterministic)
     (simp add: py_range3_1_4 py_str_digits reseeding_deterministic[OF ditch_water_reseeds])

lemma ditch_edge_deterministic: "deterministic (generate_ditch_edge E)"
  unfolding generate_ditch_edge_def by (rule reseeding_deterministic, rule ditch_edge_reseeds) simp

lemma fence_post_deterministic: "deterministic (generate_fence_post E)"
  unfolding generate_fence_post_def by (rule reseeding_deterministic, rule fence_post_reseeds) simp

lemma fence_rail_deterministic: "deterministic (generate_fence_rail E)"
  unfolding generate_fence_rail_def by (rule reseeding_deterministic, rule fence_rail_reseeds) simp

lemma gate_door_deterministic: "deterministic (generate_gate_door E)"
  unfolding generate_gate_door_def by (rule draw_and_save_deterministic, rule gate_door_no_random) simp

lemma gate_post_deterministic: "deterministic (generate_gate_post E)"
  unfolding generate_gate_post_def by (rule reseeding_deterministic, rule gate_post_reseeds) simp

lemma clouds_deterministic: "deterministic (generate_clouds E)"
  unfolding generate_clouds_def
  by (rule run_all_deterministic)
     (simp add: py_range3_1_4 py_str_digits reseeding_deterministic[OF clouds_reseeds])

lemma title_logo_deterministic: "deterministic (generate_title_logo E)"
  unfolding generate_title_logo_def
  by (rule draw_and_save_deterministic, rule title_logo_no_random) simp

lemma button_deterministic:
  assumes "CHR ''/'' \<notin> set name"
  shows "deterministic (generate_button E name t c)"
  unfolding generate_button_def
  by (rule draw_and_save_deterministic, rule button_no_random, rule assms)

lemma heart_deterministic:
  assumes "CHR ''/'' \<notin> set name"
  shows "deterministic (generate_heart E name c a)"
  unfolding generate_heart_def
  by (rule draw_and_save_deterministic, rule heart_no_random, rule assms)

lemma score_badge_deterministic: "deterministic (generate_score_badge E)"
  unfolding generate_score_badge_def
  by (rule draw_and_save_deterministic, rule score_badge_no_random) simp

lemma game_over_deterministic: "deterministic (generate_game_over_banner E)"
  unfolding generate_game_over_banner_def
  by (rule draw_and_save_deterministic, rule game_over_no_random) simp

lemma gate_indicators_deterministic: "deterministic (generate_gate_indicators E)"
  unfolding generate_gate_indicators_def
  by (rule run_all_deterministic)
     (simp add: draw_and_save_deterministic[OF gate_indicator_no_random])

lemma particles_deterministic: "deterministic (generate_particles E)"
  unfolding generate_particles_def
  by (rule run_all_deterministic) (simp add: generate_particle_deterministic)

lemma generators_deterministic: "list_all (\<lambda>(label, gen). deterministic gen) (generators E)"
  by (simp add: generators_def cow_walk_deterministic cow_drowning_deterministic farmer_deterministic
      background_grass_deterministic safe_pasture_deterministic ditch_water_deterministic
      ditch_edge_deterministic fence_post_deterministic fence_rail_deterministic gate_door_deterministic
      gate_post_deterministic clouds_deterministic title_logo_deterministic button_deterministic
      heart_deterministic score_badge_deterministic game_over_deterministic gate_indicators_deterministic
      particles_deterministic)

lemma main_deterministic: "deterministic (main E)"
  unfolding main_def
  by (rule run_all_deterministic)
     (use generators_deterministic[of E] in \<open>simp add: list_all_iff split_beta\<close>)

section \<open>The claims\<close>

text \<open>
  Claim C1. Generation is deterministic. Every generator of the batch, and the batch itself,
  either raises the same exception in every run or writes the same files with the same
  images in every run, whatever state the random generator is in at the start. Every draw
  function that uses the random generator reseeds it, with a constant or with a multiple of
  its variant or frame index, before the first random draw, so its draw calls and the
  generator state it leaves do not depend on the state it starts in.
\<close>

theorem deterministic_generation:
  "list_all (\<lambda>(label, gen). deterministic gen) (generators E) \<and>
   deterministic (main E) \<and>
   draw_cow E variant g1 w h s = draw_cow E variant g2 w h s \<and>
   cow_drowning_draw_fn E g1 w h s = cow_drowning_draw_fn E g2 w h s \<and>
   background_grass_draw_fn E g1 w h s = background_grass_draw_fn E g2 w h s \<and>
   safe_pasture_draw_fn E g1 w h s = safe_pasture_draw_fn E g2 w h s \<and>
   ditch_water_draw_fn E frame g1 w h s = ditch_water_draw_fn E frame g2 w h s \<and>
   ditch_edge_draw_fn E g1 w h s = ditch_edge_draw_fn E g2 w h s \<and>
   fence_post_draw_fn E g1 w h s = fence_post_draw_fn E g2 w h s \<and>
   fence_rail_draw_fn E g1 w h s = fence_rail_draw_fn E g2 w h s \<and>
   gate_post_draw_fn E g1 w h s = gate_post_draw_fn E g2 w h s \<and>
   clouds_draw_fn E variant g1 w h s = clouds_draw_fn E variant g2 w h s"
  by (intro conjI generators_deterministic main_deterministic draw_cow_reseeds cow_drowning_reseeds
      background_grass_reseeds safe_pasture_reseeds ditch_water_reseeds ditch_edge_reseeds
      fence_post_reseeds fence_rail_reseeds gate_post_reseeds clouds_reseeds)

theorem deterministic_generation_witness:
  "\<exists>W1 W2. generate_cow_walk demo_env (empty_world 1) = Inr W1 \<and>
           generate_cow_walk demo_env (empty_world 2) = Inr W2 \<and>
           dirs W1 = dirs W2 \<and> files W1 = files W2"
proof -
  have d: "deterministic (generate_cow_walk demo_env)"
    using deterministic_generation[of demo_env] by (simp add: generators_def)
  obtain c1 g1 where 1: "draw_cow demo_env 1 (rng (empty_world 1)) (156 * 4) (132 * 4) 4 = Inr (c1, g1)"
    using draw_cow_returns[of demo_env 1 "rng (empty_world 1)" "156 * 4" "132 * 4" 4] by (elim exE)
  have n1: "CHR ''/'' \<notin> set ''cow_walk_1''" and n2: "CHR ''/'' \<notin> set ''cow_walk_2''" by simp_all
  have run: "generate_cow_walk demo_env W =
      (case draw_and_save demo_env 156 132 (draw_cow demo_env 1) ''cow_walk_1'' W of
         Inl e \<Rightarrow> Inl e
       | Inr W1 \<Rightarrow> draw_and_save demo_env 156 132 (draw_cow demo_env 2) ''cow_walk_2'' W1)" for W
    by (simp add: generate_cow_walk_def py_str_digits split: sum.splits)
  obtain A where A: "draw_and_save demo_env 156 132 (draw_cow demo_env 1) ''cow_walk_1'' (empty_world 1) = Inr A"
    using draw_and_save_ok[where draw_func = "draw_cow demo_env 1" and W = "empty_world 1"
        and ?w3x = 156 and ?h3x = 132 and name = "''cow_walk_1''" and E = demo_env, OF 1 n1] by auto
  obtain c2 g2 where 2: "draw_cow demo_env 2 (rng A) (156 * 4) (132 * 4) 4 = Inr (c2, g2)"
    using draw_cow_returns[of demo_env 2 "rng A" "156 * 4" "132 * 4" 4] by (elim exE)
  obtain B where B: "draw_and_save demo_env 156 132 (draw_cow demo_env 2) ''cow_walk_2'' A = Inr B"
    using draw_and_save_ok[where draw_func = "draw_cow demo_env 2" and W = A
        and ?w3x = 156 and ?h3x = 132 and name = "''cow_walk_2''" and E = demo_env, OF 2 n2] by auto
  have ok: "generate_cow_walk demo_env (empty_world 1) = Inr B" by (simp add: run A B)
  from d ok obtain D F where DF:
    "\<forall>W. \<exists>W'. generate_cow_walk demo_env W = Inr W' \<and> dirs W' = dirs W \<union> D \<and> files W' = files W ++ F"
    unfolding deterministic_def by auto
  obtain W1 where W1: "generate_cow_walk demo_env (empty_world 1) = Inr W1"
    "dirs W1 = dirs (empty_world (1::int)) \<union> D" "files W1 = files (empty_world (1::int)) ++ F"
    using DF by blast
  obtain W2 where W2: "generate_cow_walk demo_env (empty_world 2) = Inr W2"
    "dirs W2 = dirs (empty_world (2::int)) \<union> D" "files W2 = files (empty_world (2::int)) ++ F"
    using DF by blast
  have same: "dirs W1 = dirs W2" "files W1 = files W2"
    using W1 W2 by (simp_all add: empty_world_def)
  show ?thesis using W1 W2 same by blast
qed

text \<open>
  Claim C2. A sprite with base size \<open>(W, H)\<close> is drawn on a canvas of exactly
  \<open>(W * 4, H * 4)\<close>; the canvas is resized with the Lanczos filter to exactly \<open>(W, H)\<close>,
  which is the @3x file; the @2x file is a Lanczos resize of that @3x image, and is not
  a resize of the canvas.
\<close>

theorem two_stage_resampling_chain:
  assumes "draw_and_save E w3x h3x draw_func name W = Inr W'"
  shows "\<exists>cmds g'. draw_func (rng W) (w3x * 4) (h3x * 4) 4 = Inr (cmds, g') \<and>
           (let canvas = Drawn (New ''RGBA'' (w3x * 4, h3x * 4) (RGBA 0 0 0 0)) cmds;
                at3x = Resized canvas (w3x, h3x) LANCZOS
            in image_size canvas = (w3x * 4, h3x * 4) \<and> image_size at3x = (w3x, h3x) \<and>
               files W' (path_join (imageset_dir E name) (name @ ''@3x.png'')) = Some (Png at3x) \<and>
               (\<exists>sz. files W' (path_join (imageset_dir E name) (name @ ''@2x.png'')) =
                        Some (Png (Resized at3x sz LANCZOS))) \<and>
               (\<forall>sz f. files W' (path_join (imageset_dir E name) (name @ ''@2x.png'')) \<noteq>
                        Some (Png (Resized canvas sz f))))"
  using assms at3x_at2x_paths_differ[of "imageset_dir E name" name]
  by (auto simp: draw_and_save_def supersample_draw_def SUPERSAMPLE_def save_asset_def
                 ensure_imageset_ok write_file_def Let_def
           split: sum.splits if_splits prod.splits)

theorem two_stage_resampling_chain_witness:
  "\<exists>W'. draw_and_save demo_env 84 78 demo_draw ''heart_full'' (empty_world 0) = Inr W' \<and>
     files W' (path_join (imageset_dir demo_env ''heart_full'') (''heart_full'' @ ''@3x.png'')) =
       Some (Png (Resized (Drawn (New ''RGBA'' (336, 312) (RGBA 0 0 0 0))
                                 [Rectangle (0, 0, 3, 3) (Some (RGB 255 0 0)) None 1]) (84, 78) LANCZOS)) \<and>
     (\<exists>sz. files W' (path_join (imageset_dir demo_env ''heart_full'') (''heart_full'' @ ''@2x.png'')) =
       Some (Png (Resized (Resized (Drawn (New ''RGBA'' (336, 312) (RGBA 0 0 0 0))
                                 [Rectangle (0, 0, 3, 3) (Some (RGB 255 0 0)) None 1]) (84, 78) LANCZOS)
                          sz LANCZOS)))"
proof -
  have d: "demo_draw (rng (empty_world 0)) (84 * 4) (78 * 4) 4 =
             Inr ([Rectangle (0, 0, 3, 3) (Some (RGB 255 0 0)) None 1], rng (empty_world 0))"
    by (simp add: demo_draw_def)
  have "CHR ''/'' \<notin> set ''heart_full''" by simp
  from draw_and_save_ok[where draw_func = demo_draw and W = "empty_world 0" and E = demo_env
      and ?w3x = 84 and ?h3x = 78, OF d this]
  obtain W' where W': "draw_and_save demo_env 84 78 demo_draw ''heart_full'' (empty_world 0) = Inr W'"
    by blast
  show ?thesis
    using two_stage_resampling_chain[OF W'] W' by (simp add: demo_draw_def Let_def)
qed

text \<open>
  Claim C3. For a @3x image of size \<open>(W, H)\<close> the @2x image has size
  \<open>(\<lfloor>W * 2 / 3\<rfloor>, \<lfloor>H * 2 / 3\<rfloor>)\<close>, where the code computes \<open>int(W * 2 / 3)\<close> with float
  division. Sizes are non-negative and below \<open>2 ^ 52\<close>.
\<close>

theorem variant_dimensions_floor:
  assumes "save_asset E img name W = Inr W'"
    and "0 \<le> width img" "width img < 2 ^ 52" "0 \<le> height img" "height img < 2 ^ 52"
  shows "files W' (path_join (imageset_dir E name) (name @ ''@2x.png'')) =
           Some (Png (Resized img ((width img * 2) div 3, (height img * 2) div 3) LANCZOS))"
proof -
  have w: "py_int (int_truediv (width img * 2) 3) = (width img * 2) div 3"
    by (rule truncated_quotient_by_3) (use assms in simp_all)
  have h: "py_int (int_truediv (height img * 2) 3) = (height img * 2) div 3"
    by (rule truncated_quotient_by_3) (use assms in simp_all)
  show ?thesis
    using assms(1)
    by (auto simp: save_asset_def ensure_imageset_ok write_file_def Let_def w h
             split: sum.splits if_splits)
qed

theorem variant_dimensions_floor_witness:
  "\<exists>W'. save_asset demo_env (Resized (Drawn (New ''RGBA'' (336, 312) (RGBA 0 0 0 0)) []) (84, 78) LANCZOS)
            ''heart_full'' (empty_world 0) = Inr W' \<and>
        files W' (path_join (imageset_dir demo_env ''heart_full'') (''heart_full'' @ ''@2x.png'')) =
          Some (Png (Resized (Resized (Drawn (New ''RGBA'' (336, 312) (RGBA 0 0 0 0)) []) (84, 78) LANCZOS)
                             (56, 52) LANCZOS))"
proof -
  let ?img = "Resized (Drawn (New ''RGBA'' (336, 312) (RGBA 0 0 0 0)) []) (84, 78) LANCZOS"
  have "CHR ''/'' \<notin> set ''heart_full''" by simp
  from save_asset_ok[OF this, of demo_env ?img "empty_world 0"]
  obtain W' where W': "save_asset demo_env ?img ''heart_full'' (empty_world 0) = Inr W'" by blast
  have "files W' (path_join (imageset_dir demo_env ''heart_full'') (''heart_full'' @ ''@2x.png'')) =
          Some (Png (Resized ?img ((width ?img * 2) div 3, (height ?img * 2) div 3) LANCZOS))"
    by (rule variant_dimensions_floor[OF W']) (simp_all add: width_def height_def)
  then show ?thesis using W' by (simp add: width_def height_def)
qed

text \<open>
  Claim C4, as amended. The outlined primitives do not normalise their geometry: they pass
  the bounding box they are given to the library as it is, once grown by
  \<open>outline_w * s\<close> on every side for the outline and once unchanged for the fill, and
  \<open>outlined_circle\<close> builds its box from the radius without clamping it. A wave polyline
  of the ditch water with fewer than two points is not drawn: the row issues no draw call.
\<close>

theorem primitives_pass_geometry_unchanged:
  "outlined_ellipse (x0, y0, x1, y1) fill outline outline_w s =
     [Ellipse (x0 - outline_w * s, y0 - outline_w * s, x1 + outline_w * s, y1 + outline_w * s)
        (Some outline) None 1,
      Ellipse (x0, y0, x1, y1) (Some fill) None 1] \<and>
   outlined_rect (x0, y0, x1, y1) fill outline outline_w s =
     [Rounded_rectangle (x0 - outline_w * s, y0 - outline_w * s, x1 + outline_w * s, y1 + outline_w * s)
        (2 * s) (Some outline) None 1,
      Rounded_rectangle (x0, y0, x1, y1) (2 * s) (Some fill) None 1] \<and>
   outlined_circle cx cy r fill outline outline_w s =
     [Ellipse (cx - r - outline_w * s, cy - r - outline_w * s, cx + r + outline_w * s, cy + r + outline_w * s)
        (Some outline) None 1,
      Ellipse (cx - r, cy - r, cx + r, cy + r) (Some fill) None 1] \<and>
   (length (ditch_wave_points E w s phase wy_base) < 2 \<longrightarrow> ditch_wave_row E w s phase wy_base = []) \<and>
   (0 < s \<longrightarrow> w \<le> 4 * s \<longrightarrow> ditch_waves E w h s phase = [])"
proof -
  have "ditch_waves E w h s phase = []" if "0 < s" "w \<le> 4 * s"
    by (simp add: ditch_waves_def ditch_wave_row_skipped[OF that])
  then show ?thesis
    by (simp add: outlined_ellipse_def outlined_rect_def outlined_circle_def ditch_wave_row_def Let_def)
qed

theorem primitives_pass_geometry_unchanged_witness:
  "length (ditch_wave_points demo_env 4 1 0 0) < 2 \<and> ditch_wave_row demo_env 4 1 0 0 = [] \<and>
   ditch_waves demo_env 4 24 1 0 = []"
proof -
  have l: "length (ditch_wave_points demo_env 4 1 0 0) < 2"
    by (simp add: ditch_wave_points_def py_range3_def)
  from primitives_pass_geometry_unchanged[of 0 0 0 0 "RGB 0 0 0" "RGB 0 0 0" 0 1 0 0 0 demo_env 4 0 0 24]
  show ?thesis using l by simp
qed

text \<open>
  The claim as stated fails: an inverted box \<open>(10, 10, 0, 0)\<close> reaches the library
  unswapped, and the radius \<open>-5\<close> gives the inverted box \<open>(5, 5, -5, -5)\<close>, not a radius
  clamped to zero.
\<close>

theorem degenerate_geometry_counterexample:
  "outlined_ellipse (10, 10, 0, 0) (RGB 255 255 255) (RGB 40 40 40) 2 4 =
     [Ellipse (2, 2, 8, 8) (Some (RGB 40 40 40)) None 1,
      Ellipse (10, 10, 0, 0) (Some (RGB 255 255 255)) None 1] \<and>
   outlined_circle 0 0 (- 5) (RGB 255 255 255) (RGB 40 40 40) 0 4 =
     [Ellipse (5, 5, - 5, - 5) (Some (RGB 40 40 40)) None 1,
      Ellipse (5, 5, - 5, - 5) (Some (RGB 255 255 255)) None 1]"
  by (simp add: outlined_ellipse_def outlined_circle_def)

text \<open>
  Claim C5, as amended. The three ditch-water frames, indices 1, 2 and 3, are each drawn on a
  canvas of 2048 by 640 and exported at 512 by 160. A frame's draw calls are the gradient,
  which is the same for every frame, the wave rows, which depend on the frame only through
  \<open>phase = frame * 2.1\<close>, and the shimmer highlights, which are drawn from the random
  generator reseeded with \<open>frame * 100\<close>.
\<close>

theorem ditch_water_frames:
  "generate_ditch_water E =
     run_all [draw_and_save E 512 160 (ditch_water_draw_fn E 1) ''ditch_water_1'',
              draw_and_save E 512 160 (ditch_water_draw_fn E 2) ''ditch_water_2'',
              draw_and_save E 512 160 (ditch_water_draw_fn E 3) ''ditch_water_3''] \<and>
   (\<exists>shimmer g'.
      for_loop (py_range 20) (\<lambda>_. ditch_shimmer E 2048 640 4) (random_seed E (frame * 100)) = (shimmer, g') \<and>
      supersample_draw 512 160 (ditch_water_draw_fn E frame) g =
        Inr (Resized (Drawn (New ''RGBA'' (2048, 640) (RGBA 0 0 0 0))
                       (gradient (30, 20) (60, 40) (140, 40) 2048 640
                        @ ditch_waves E 2048 640 4 (fmul (float_of_int frame) (float_lit (21 / 10)))
                        @ shimmer))
                     (512, 160) LANCZOS, g'))"
proof -
  obtain shimmer g' where l:
    "for_loop (py_range 20) (\<lambda>_. ditch_shimmer E 2048 640 4) (random_seed E (frame * 100)) = (shimmer, g')"
    by (cases "for_loop (py_range 20) (\<lambda>_. ditch_shimmer E 2048 640 4) (random_seed E (frame * 100))")
  have "supersample_draw 512 160 (ditch_water_draw_fn E frame) g =
        Inr (Resized (Drawn (New ''RGBA'' (2048, 640) (RGBA 0 0 0 0))
                       (gradient (30, 20) (60, 40) (140, 40) 2048 640
                        @ ditch_waves E 2048 640 4 (fmul (float_of_int frame) (float_lit (21 / 10)))
                        @ shimmer))
                     (512, 160) LANCZOS, g')"
    using l by (simp add: supersample_draw_def SUPERSAMPLE_def ditch_water_draw_fn_def Let_def)
  then show ?thesis
    using l by (simp add: generate_ditch_water_def py_range3_1_4 py_str_digits)
qed

text \<open>
  The frames do not vary by the phase only. Draw call 654 of a frame is its first shimmer
  highlight (after 640 gradient lines and 14 wave rows); with the example random generator
  it differs between frames 1 and 2.
\<close>

theorem ditch_water_frames_counterexample:
  "issued (ditch_water_draw_fn demo_env 1 0 2048 640 4) ! 654 =
     Ellipse (100, 147, 166, 155) (Some (RGBA 150 200 255 60)) None 1 \<and>
   issued (ditch_water_draw_fn demo_env 2 0 2048 640 4) ! 654 =
     Ellipse (200, 128, 235, 136) (Some (RGBA 150 200 255 60)) None 1"
proof -
  have 1: "ditch_shimmer demo_env 2048 640 4 (random_seed demo_env (1 * 100)) =
             ([Ellipse (100, 147, 166, 155) (Some (RGBA 150 200 255 60)) None 1], 1478614675)"
    by (simp add: ditch_shimmer_def demo_env_def)
  have 2: "ditch_shimmer demo_env 2048 640 4 (random_seed demo_env (2 * 100)) =
             ([Ellipse (200, 128, 235, 136) (Some (RGBA 150 200 255 60)) None 1], 155161927)"
    by (simp add: ditch_shimmer_def demo_env_def)
  show ?thesis
    using ditch_water_first_shimmer[OF 1, of 0] ditch_water_first_shimmer[OF 2, of 0] by simp
qed

text \<open>
  Claim C6, as amended. Outlined text with outline width \<open>ow\<close> is stamped in the outline
  colour exactly once at every integer offset \<open>(dx, dy)\<close> with \<open>|dx| \<le> ow\<close>, \<open>|dy| \<le> ow\<close> and
  \<open>dx\<^sup>2 + dy\<^sup>2 \<le> ow\<^sup>2 + 1\<close>, and then once more in the fill colour at the anchor.
\<close>

theorem outlined_text_halo:
  assumes "draw_text_outlined E (x, y) text font_size fill outline_color ow s = Inr (cmds, font)"
  shows "cmds = map (\<lambda>(dx, dy). Text (x + dx, y + dy) text font (Some outline_color) ''mm'')
                    (halo_offsets ow)
                @ [Text (x, y) text font (Some fill) ''mm''] \<and>
         distinct (halo_offsets ow) \<and>
         set (halo_offsets ow) =
           {(dx, dy). - ow \<le> dx \<and> dx \<le> ow \<and> - ow \<le> dy \<and> dy \<le> ow \<and>
                      dx * dx + dy * dy \<le> ow * ow + 1}"
  using assms
  by (auto simp: draw_text_outlined_def set_halo_offsets distinct_halo_offsets split: sum.splits)

theorem outlined_text_halo_witness:
  "draw_text_outlined demo_env (5, 7) ''GO'' 160 (RGB 255 255 255) (RGB 40 40 40) 1 4 =
     Inr ([Text (4, 6) ''GO'' DefaultFont (Some (RGB 40 40 40)) ''mm'',
           Text (4, 7) ''GO'' DefaultFont (Some (RGB 40 40 40)) ''mm'',
           Text (4, 8) ''GO'' DefaultFont (Some (RGB 40 40 40)) ''mm'',
           Text (5, 6) ''GO'' DefaultFont (Some (RGB 40 40 40)) ''mm'',
           Text (5, 7) ''GO'' DefaultFont (Some (RGB 40 40 40)) ''mm'',
           Text (5, 8) ''GO'' DefaultFont (Some (RGB 40 40 40)) ''mm'',
           Text (6, 6) ''GO'' DefaultFont (Some (RGB 40 40 40)) ''mm'',
           Text (6, 7) ''GO'' DefaultFont (Some (RGB 40 40 40)) ''mm'',
           Text (6, 8) ''GO'' DefaultFont (Some (RGB 40 40 40)) ''mm'',
           Text (5, 7) ''GO'' DefaultFont (Some (RGB 255 255 255)) ''mm''], DefaultFont) \<and>
   distinct (halo_offsets 1) \<and> (1, 1) \<in> set (halo_offsets 1)"
proof -
  have run: "draw_text_outlined demo_env (5, 7) ''GO'' 160 (RGB 255 255 255) (RGB 40 40 40) 1 4 =
     Inr (map (\<lambda>(dx, dy). Text (5 + dx, 7 + dy) ''GO'' DefaultFont (Some (RGB 40 40 40)) ''mm'')
              (halo_offsets 1)
          @ [Text (5, 7) ''GO'' DefaultFont (Some (RGB 255 255 255)) ''mm''], DefaultFont)"
    by (simp add: draw_text_outlined_def resolve_font_demo)
  from outlined_text_halo[OF run] show ?thesis using run by (simp add: halo_offsets_1)
qed

text \<open>
  The offsets are not those of the disk of radius \<open>ow\<close>: for \<open>ow = 1\<close> the text is stamped
  at all nine offsets of the square, among them \<open>(1, 1)\<close>, which is outside the disk.
\<close>

theorem outlined_text_halo_counterexample:
  "draw_text_outlined demo_env (0, 0) ''A'' 10 (RGB 255 255 255) (RGB 0 0 0) 1 4 =
     Inr ([Text (- 1, - 1) ''A'' DefaultFont (Some (RGB 0 0 0)) ''mm'',
           Text (- 1, 0) ''A'' DefaultFont (Some (RGB 0 0 0)) ''mm'',
           Text (- 1, 1) ''A'' DefaultFont (Some (RGB 0 0 0)) ''mm'',
           Text (0, - 1) ''A'' DefaultFont (Some (RGB 0 0 0)) ''mm'',
           Text (0, 0) ''A'' DefaultFont (Some (RGB 0 0 0)) ''mm'',
           Text (0, 1) ''A'' DefaultFont (Some (RGB 0 0 0)) ''mm'',
           Text (1, - 1) ''A'' DefaultFont (Some (RGB 0 0 0)) ''mm'',
           Text (1, 0) ''A'' DefaultFont (Some (RGB 0 0 0)) ''mm'',
           Text (1, 1) ''A'' DefaultFont (Some (RGB 0 0 0)) ''mm'',
           Text (0, 0) ''A'' DefaultFont (Some (RGB 255 255 255)) ''mm''], DefaultFont) \<and>
   \<not> ((1::int) * 1 + 1 * 1 \<le> 1 * 1)"
  by (simp add: draw_text_outlined_def resolve_font_demo halo_offsets_1)

text \<open>
  Claim C7. Text drawing tries the Helvetica font file, then the SF display font file, and
  when both fail to open (\<open>OSError\<close>) it uses the built-in default font and returns
  normally; it never ends with an \<open>OSError\<close> from font loading.
\<close>

theorem font_resolution_fallback:
  "draw_text_outlined E pos text font_size fill outline_color ow s \<noteq> Inl OSError \<and>
   (truetype E ''/System/Library/Fonts/Helvetica.ttc'' font_size = Inl OSError \<longrightarrow>
    truetype E ''/System/Library/Fonts/SFNSDisplay.ttf'' font_size = Inl OSError \<longrightarrow>
      (\<exists>cmds. draw_text_outlined E pos text font_size fill outline_color ow s = Inr (cmds, DefaultFont))) \<and>
   (\<forall>f. truetype E ''/System/Library/Fonts/Helvetica.ttc'' font_size = Inl OSError \<longrightarrow>
        truetype E ''/System/Library/Fonts/SFNSDisplay.ttf'' font_size = Inr f \<longrightarrow>
      (\<exists>cmds. draw_text_outlined E pos text font_size fill outline_color ow s = Inr (cmds, f))) \<and>
   (\<forall>f. truetype E ''/System/Library/Fonts/Helvetica.ttc'' font_size = Inr f \<longrightarrow>
      (\<exists>cmds. draw_text_outlined E pos text font_size fill outline_color ow s = Inr (cmds, f)))"
  by (cases pos) (auto simp: draw_text_outlined_def resolve_font_def split: sum.splits)

theorem font_resolution_fallback_witness:
  "(\<exists>cmds. draw_text_outlined demo_env (1200, 344) ''PLAY'' 160 (RGB 255 255 255) (RGBA 0 0 0 180) 12 4
            = Inr (cmds, DefaultFont)) \<and>
   (\<exists>cmds. draw_text_outlined
              (demo_env\<lparr>truetype := \<lambda>path sz. if path = ''/System/Library/Fonts/SFNSDisplay.ttf''
                                               then Inr (FreeTypeFont path sz) else Inl OSError\<rparr>)
              (1200, 344) ''PLAY'' 160 (RGB 255 255 255) (RGBA 0 0 0 180) 12 4
            = Inr (cmds, FreeTypeFont ''/System/Library/Fonts/SFNSDisplay.ttf'' 160)) \<and>
   (\<exists>cmds. draw_text_outlined
              (demo_env\<lparr>truetype := \<lambda>path sz. Inr (FreeTypeFont path sz)\<rparr>)
              (1200, 344) ''PLAY'' 160 (RGB 255 255 255) (RGBA 0 0 0 180) 12 4
            = Inr (cmds, FreeTypeFont ''/System/Library/Fonts/Helvetica.ttc'' 160))"
proof (intro conjI)
  let ?E2 = "demo_env\<lparr>truetype := \<lambda>path sz. if path = ''/System/Library/Fonts/SFNSDisplay.ttf''
                                               then Inr (FreeTypeFont path sz) else Inl OSError\<rparr>"
  let ?E3 = "demo_env\<lparr>truetype := \<lambda>path sz. Inr (FreeTypeFont path sz)\<rparr>"
  show "\<exists>cmds. draw_text_outlined demo_env (1200, 344) ''PLAY'' 160 (RGB 255 255 255) (RGBA 0 0 0 180) 12 4
            = Inr (cmds, DefaultFont)"
    using font_resolution_fallback[of demo_env "(1200, 344)" "''PLAY''" 160 "RGB 255 255 255"
        "RGBA 0 0 0 180" 12 4]
    by (simp add: demo_env_def)
  show "\<exists>cmds. draw_text_outlined ?E2 (1200, 344) ''PLAY'' 160 (RGB 255 255 255) (RGBA 0 0 0 180) 12 4
            = Inr (cmds, FreeTypeFont ''/System/Library/Fonts/SFNSDisplay.ttf'' 160)"
    using font_resolution_fallback[of ?E2 "(1200, 344)" "''PLAY''" 160 "RGB 255 255 255"
        "RGBA 0 0 0 180" 12 4]
    by simp
  show "\<exists>cmds. draw_text_outlined ?E3 (1200, 344) ''PLAY'' 160 (RGB 255 255 255) (RGBA 0 0 0 180) 12 4
            = Inr (cmds, FreeTypeFont ''/System/Library/Fonts/Helvetica.ttc'' 160)"
    using font_resolution_fallback[of ?E3 "(1200, 344)" "''PLAY''" 160 "RGB 255 255 255"
        "RGBA 0 0 0 180" 12 4]
    by simp
qed

text \<open>
  Claim C8. For a sprite name without a path separator, the export creates the bundle
  directory and writes exactly three files into it: the manifest, with two image entries
  (\<open>name@2x.png\<close> at scale 2x and \<open>name@3x.png\<close> at scale 3x, idiom universal) and the
  info (author xcode, version 1), and the two raster files. The heart icon is exported
  at 84 by 78 (@3x) and 56 by 52 (@2x).
\<close>

theorem bundle_and_manifest_shape:
  assumes "CHR ''/'' \<notin> set name"
  shows "\<exists>W'. save_asset E img name W = Inr W' \<and>
           dirs W' = dirs W \<union> set (parent_dirs (imageset_dir E name)) \<union> {imageset_dir E name} \<and>
           files W' = (files W)
             (imageset_dir E name @ ''/Contents.json'' \<mapsto>
                Json (JObject [
                  (''images'', JArray [
                     JObject [(''filename'', JString (name @ ''@2x.png'')),
                              (''idiom'', JString ''universal''), (''scale'', JString ''2x'')],
                     JObject [(''filename'', JString (name @ ''@3x.png'')),
                              (''idiom'', JString ''universal''), (''scale'', JString ''3x'')]]),
                  (''info'', JObject [(''author'', JString ''xcode''), (''version'', JInt 1)])]),
              imageset_dir E name @ ''/'' @ name @ ''@3x.png'' \<mapsto> Png img,
              imageset_dir E name @ ''/'' @ name @ ''@2x.png'' \<mapsto>
                Png (Resized img (at2x_size img) LANCZOS)) \<and>
           distinct [imageset_dir E name @ ''/Contents.json'',
                     imageset_dir E name @ ''/'' @ name @ ''@3x.png'',
                     imageset_dir E name @ ''/'' @ name @ ''@2x.png''] \<and>
           ((\<forall>p \<in> dom (files W). dirname p \<noteq> imageset_dir E name) \<longrightarrow>
              {p \<in> dom (files W'). dirname p = imageset_dir E name} =
                {imageset_dir E name @ ''/Contents.json'',
                 imageset_dir E name @ ''/'' @ name @ ''@3x.png'',
                 imageset_dir E name @ ''/'' @ name @ ''@2x.png''}) \<and>
           (\<exists>cmds. heart_draw_fn color alpha (rng W) 336 312 4 = Inr (cmds, rng W) \<and>
              generate_heart E name color alpha W =
                save_asset E (Resized (Drawn (New ''RGBA'' (336, 312) (RGBA 0 0 0 0)) cmds) (84, 78) LANCZOS)
                  name W \<and>
              at2x_size (Resized (Drawn (New ''RGBA'' (336, 312) (RGBA 0 0 0 0)) cmds) (84, 78) LANCZOS)
                = (56, 52))"
proof -
  let ?d = "imageset_dir E name"
  have pj: "path_join ?d ''Contents.json'' = ?d @ ''/Contents.json''"
    using file_in_imageset(1)[of "''Contents.json''" E name] by simp
  have p3: "path_join ?d (name @ ''@3x.png'') = ?d @ ''/'' @ name @ ''@3x.png''"
    using file_in_imageset(1)[of "name @ ''@3x.png''" E name] assms by simp
  have p2: "path_join ?d (name @ ''@2x.png'') = ?d @ ''/'' @ name @ ''@2x.png''"
    using file_in_imageset(1)[of "name @ ''@2x.png''" E name] assms by simp
  have dj: "dirname (?d @ ''/Contents.json'') = ?d"
    using file_in_imageset(2)[of "''Contents.json''" E name] pj by simp
  have d3: "dirname (?d @ ''/'' @ name @ ''@3x.png'') = ?d"
    using file_in_imageset(2)[of "name @ ''@3x.png''" E name] assms p3 by simp
  have d2: "dirname (?d @ ''/'' @ name @ ''@2x.png'') = ?d"
    using file_in_imageset(2)[of "name @ ''@2x.png''" E name] assms p2 by simp
  have dist: "distinct [?d @ ''/Contents.json'', ?d @ ''/'' @ name @ ''@3x.png'', ?d @ ''/'' @ name @ ''@2x.png'']"
    using bundle_paths_distinct[OF assms, of E] by (simp add: pj p3 p2)
  define W' where "W' = W\<lparr>dirs := dirs W \<union> set (parent_dirs ?d) \<union> {?d},
      files := (files W)(?d @ ''/Contents.json'' \<mapsto> Json (contents_json name),
                         ?d @ ''/'' @ name @ ''@3x.png'' \<mapsto> Png img,
                         ?d @ ''/'' @ name @ ''@2x.png'' \<mapsto> Png (Resized img (at2x_size img) LANCZOS))\<rparr>"
  have run: "save_asset E img name W = Inr W'"
    using save_asset_ok[OF assms, of E img W] by (simp add: W'_def pj p3 p2)
  have inside: "{p \<in> dom (files W'). dirname p = ?d} =
                  {?d @ ''/Contents.json'', ?d @ ''/'' @ name @ ''@3x.png'', ?d @ ''/'' @ name @ ''@2x.png''}"
    if "\<forall>p \<in> dom (files W). dirname p \<noteq> ?d"
    using that dj d3 d2 by (auto simp: W'_def)
  obtain cmds where h: "heart_draw_fn color alpha (rng W) 336 312 4 = Inr (cmds, rng W)"
    using heart_returns[of color alpha "rng W" 336 312 4] by (elim exE)
  have gh: "generate_heart E name color alpha W =
              save_asset E (Resized (Drawn (New ''RGBA'' (336, 312) (RGBA 0 0 0 0)) cmds) (84, 78) LANCZOS) name W"
    using h by (simp add: generate_heart_def draw_and_save_def supersample_draw_def SUPERSAMPLE_def)
  have sz: "at2x_size (Resized (Drawn (New ''RGBA'' (336, 312) (RGBA 0 0 0 0)) cmds) (84, 78) LANCZOS) = (56, 52)"
    using truncated_quotient_by_3[of 168] truncated_quotient_by_3[of 156]
    by (simp add: at2x_size_def width_def height_def)
  show ?thesis
    using run inside dist h gh sz by (auto simp: W'_def contents_json_def)
qed

theorem bundle_and_manifest_shape_witness:
  "\<exists>W'. generate_heart demo_env ''heart_full'' (220, 40, 40) 255 (empty_world 0) = Inr W' \<and>
     dom (files W') =
       {''/game/CowsInTheDitch/Assets.xcassets/heart_full.imageset/Contents.json'',
        ''/game/CowsInTheDitch/Assets.xcassets/heart_full.imageset/heart_full@3x.png'',
        ''/game/CowsInTheDitch/Assets.xcassets/heart_full.imageset/heart_full@2x.png''} \<and>
     (\<exists>cmds. files W' ''/game/CowsInTheDitch/Assets.xcassets/heart_full.imageset/heart_full@2x.png'' =
        Some (Png (Resized (Resized (Drawn (New ''RGBA'' (336, 312) (RGBA 0 0 0 0)) cmds) (84, 78) LANCZOS)
                           (56, 52) LANCZOS)))"
proof -
  have n: "CHR ''/'' \<notin> set ''heart_full''" by simp
  have d: "imageset_dir demo_env ''heart_full'' = ''/game/CowsInTheDitch/Assets.xcassets/heart_full.imageset''"
    by (simp add: imageset_dir_def ASSETS_DIR_def path_join_def demo_env_def)
  obtain cmds where h: "heart_draw_fn (220, 40, 40) 255 (rng (empty_world (0::int))) 336 312 4
                          = Inr (cmds, rng (empty_world (0::int)))"
    using heart_returns[of "(220, 40, 40)" 255 "rng (empty_world (0::int))" 336 312 4] by (elim exE)
  let ?img = "Resized (Drawn (New ''RGBA'' (336, 312) (RGBA 0 0 0 0)) cmds) (84, 78) LANCZOS"
  from bundle_and_manifest_shape[OF n, of demo_env ?img "empty_world 0" "(220, 40, 40)" 255]
  show ?thesis using h by (auto simp: d empty_world_def)
qed

text \<open>
  Claim C9. For a base colour with channels in \<open>[0, 255]\<close> the colours of the button
  (outline \<open>-40\<close>, highlight \<open>+40\<close>), of the heart (outline \<open>-60\<close>, half alpha) and of the gate
  indicator (highlight \<open>+80\<close>) have channels in \<open>[0, 255]\<close>; so have the plank shades of the
  gate door, the interpolated colours of the three background gradients and, whatever the
  seed, the jittered colours of the grass blades and of the ditch edge, as \<open>randint\<close>
  stays within its bounds.
\<close>

theorem channel_clamping:
  assumes rgb: "channel_ok r" "channel_ok g" "channel_ok b" and al: "channel_ok alpha"
    and rnd: "randint_in_bounds E"
  shows "(\<forall>cmds gs'. button_draw_fn E text (r, g, b) gs w h s = Inr (cmds, gs') \<longrightarrow> colors_ok cmds) \<and>
         (\<exists>cmds. heart_draw_fn (r, g, b) alpha gs w h s = Inr (cmds, gs) \<and> colors_ok cmds) \<and>
         (\<exists>cmds. gate_indicator_draw_fn (r, g, b) gs w h s = Inr (cmds, gs) \<and> colors_ok cmds) \<and>
         (\<exists>cmds. gate_door_draw_fn gs w h s = Inr (cmds, gs) \<and> colors_ok cmds) \<and>
         (\<exists>cmds gs'. background_grass_draw_fn E gs w h s = Inr (cmds, gs') \<and> colors_ok cmds) \<and>
         (s \<noteq> 0 \<longrightarrow> (\<exists>cmds gs'. ditch_edge_draw_fn E gs w h s = Inr (cmds, gs') \<and> colors_ok cmds)) \<and>
         (s \<noteq> 0 \<longrightarrow> (\<exists>cmds gs'. ditch_water_draw_fn E frame gs w h s = Inr (cmds, gs') \<and> colors_ok cmds)) \<and>
         colors_ok (gradient (40, 25) (120, 30) (20, 15) w h)"
proof (intro conjI)
  have minmax: "channel_ok (max 0 (c - k))" "channel_ok (min 255 (c + k))"
    if "channel_ok c" "0 \<le> k" for c k :: int
    using that by (auto simp: channel_ok_def)
  show "\<forall>cmds gs'. button_draw_fn E text (r, g, b) gs w h s = Inr (cmds, gs') \<longrightarrow> colors_ok cmds"
  proof (intro allI impI)
    fix cmds gs' assume run: "button_draw_fn E text (r, g, b) gs w h s = Inr (cmds, gs')"
    have label_ok: "colors_ok label"
      if "draw_text_outlined E (w div 2, h div 2 - 4 * s) text (40 * s)
            (RGB 255 255 255) (RGBA 0 0 0 180) (3 * s) s = Inr (label, f)" for label f
      by (rule draw_text_outlined_colors_ok[OF that]) (simp_all add: channel_ok_def)
    show "colors_ok cmds"
      using run rgb minmax[of _ 40] label_ok
      by (auto simp: button_draw_fn_def Let_def channel_ok_def split: sum.splits)
  qed
  show "\<exists>cmds. heart_draw_fn (r, g, b) alpha gs w h s = Inr (cmds, gs) \<and> colors_ok cmds"
    using rgb al minmax[of _ 60] by (auto simp: heart_draw_fn_def Let_def channel_ok_def)
  show "\<exists>cmds. gate_indicator_draw_fn (r, g, b) gs w h s = Inr (cmds, gs) \<and> colors_ok cmds"
    using rgb minmax[of _ 80] by (auto simp: gate_indicator_draw_fn_def channel_ok_def)
  show "\<exists>cmds. gate_door_draw_fn gs w h s = Inr (cmds, gs) \<and> colors_ok cmds"
    by (simp add: gate_door_draw_fn_def Let_def py_range_4 door_plank_def door_hinge_def channel_ok_def)
  show "\<exists>cmds gs'. background_grass_draw_fn E gs w h s = Inr (cmds, gs') \<and> colors_ok cmds"
  proof -
    obtain blades g1 where l: "for_loop (py_range 200) (\<lambda>_. background_blade E w h s) (random_seed E 7) = (blades, g1)"
      by (cases "for_loop (py_range 200) (\<lambda>_. background_blade E w h s) (random_seed E 7)")
    have "colors_ok blades"
      using for_loop_colors_ok[of "\<lambda>_. background_blade E w h s" "py_range 200" "random_seed E 7",
          OF background_blade_colors_ok[OF rnd]] l by simp
    moreover have "colors_ok (gradient (60, 30) (140, 40) (30, 20) w h)"
      by (rule gradient_colors_ok) simp_all
    ultimately show ?thesis using l by (simp add: background_grass_draw_fn_def Let_def)
  qed
  show "s \<noteq> 0 \<longrightarrow> (\<exists>cmds gs'. ditch_edge_draw_fn E gs w h s = Inr (cmds, gs') \<and> colors_ok cmds)"
  proof
    assume s: "s \<noteq> 0"
    obtain tex g1 where t: "for_loop (py_range 80) (\<lambda>_. edge_speck E w h s) (random_seed E 55) = (tex, g1)"
      by (cases "for_loop (py_range 80) (\<lambda>_. edge_speck E w h s) (random_seed E 55)")
    obtain gr g2 where gr: "for_loop (py_range3 0 w (3 * s)) (edge_grass E s) g1 = (gr, g2)"
      by (cases "for_loop (py_range3 0 w (3 * s)) (edge_grass E s) g1")
    have 1: "colors_ok tex"
      using for_loop_colors_ok[of "\<lambda>_. edge_speck E w h s" "py_range 80" "random_seed E 55",
          OF edge_speck_colors_ok[OF rnd]] t by simp
    have 2: "colors_ok gr"
      using for_loop_colors_ok[of "edge_grass E s" "py_range3 0 w (3 * s)" g1, OF edge_grass_colors_ok]
        gr by simp
    show "\<exists>cmds gs'. ditch_edge_draw_fn E gs w h s = Inr (cmds, gs') \<and> colors_ok cmds"
      using s t gr 1 2 by (simp add: ditch_edge_draw_fn_def Let_def channel_ok_def)
  qed
  show "s \<noteq> 0 \<longrightarrow> (\<exists>cmds gs'. ditch_water_draw_fn E frame gs w h s = Inr (cmds, gs') \<and> colors_ok cmds)"
  proof
    assume s: "s \<noteq> 0"
    obtain sh g1 where l:
      "for_loop (py_range 20) (\<lambda>_. ditch_shimmer E w h s) (random_seed E (frame * 100)) = (sh, g1)"
      by (cases "for_loop (py_range 20) (\<lambda>_. ditch_shimmer E w h s) (random_seed E (frame * 100))")
    have shimmer: "colors_ok (fst (ditch_shimmer E w h s g))" for g
      by (simp add: ditch_shimmer_def channel_ok_def split: prod.splits)
    have 1: "colors_ok sh"
      using for_loop_colors_ok[of "\<lambda>_. ditch_shimmer E w h s" "py_range 20" "random_seed E (frame * 100)",
          OF shimmer] l by simp
    have row: "colors_ok (ditch_wave_row E w s phase y)" for phase y
      by (simp add: ditch_wave_row_def Let_def channel_ok_def)
    have 2: "colors_ok (ditch_waves E w h s phase)" for phase
      by (simp add: ditch_waves_def colors_ok_def list_all_iff)
         (use row in \<open>auto simp: colors_ok_def list_all_iff\<close>)
    have 3: "colors_ok (gradient (30, 20) (60, 40) (140, 40) w h)"
      by (rule gradient_colors_ok) simp_all
    show "\<exists>cmds gs'. ditch_water_draw_fn E frame gs w h s = Inr (cmds, gs') \<and> colors_ok cmds"
      using s l 1 2 3 by (simp add: ditch_water_draw_fn_def Let_def)
  qed
  show "colors_ok (gradient (40, 25) (120, 30) (20, 15) w h)"
    by (rule gradient_colors_ok) simp_all
qed

theorem channel_clamping_witness:
  "(\<exists>cmds. button_draw_fn demo_env ''PLAY'' (60, 180, 60) 0 2400 720 4 = Inr (cmds, 0) \<and> colors_ok cmds) \<and>
   (\<exists>cmds. heart_draw_fn (60, 180, 60) 255 (0::int) 2400 720 4 = Inr (cmds, 0) \<and> colors_ok cmds) \<and>
   (\<exists>cmds. gate_indicator_draw_fn (60, 180, 60) (0::int) 2400 720 4 = Inr (cmds, 0) \<and> colors_ok cmds) \<and>
   (\<exists>cmds gs'. ditch_edge_draw_fn demo_env 0 2400 720 4 = Inr (cmds, gs') \<and> colors_ok cmds)"
proof -
  have c: "channel_ok 60" "channel_ok 180" "channel_ok 255" by (simp_all add: channel_ok_def)
  from channel_clamping[OF c(1) c(2) c(1) c(3) demo_randint_in_bounds, of "''PLAY''" 0 2400 720 4 1]
    button_returns_demo[of "''PLAY''" "(60, 180, 60)" 0 2400 720 4]
  show ?thesis by auto
qed



end
